theory Spec2Isabelle
  imports Complex_Main
begin

section \<open>Data model (models/story.model.ts)\<close>

text \<open>
  A browser \<^verbatim>\<open>File\<close>: its MIME type and what \<^verbatim>\<open>FileReader.readAsDataURL\<close> yields for it
  (\<open>None\<close>: the reader fires \<^verbatim>\<open>onerror\<close>).
\<close>

record js_file =
  mimeType :: string
  dataUrl :: "string option"

text \<open>
  The times of a segment are JavaScript numbers as \<^verbatim>\<open>JSON.parse\<close> leaves them: doubles, where
  a literal too large to hold is an infinity. They are subtracted as doubles: the exact
  difference is rounded to the nearest double, ties to the even mantissa (53 bits, exponents
  from -1022 to 1023, the quantum never below 2 to the power -1074), and a result of 2 to the
  power 1024 or more is an infinity. The other numbers of the program are whole numbers or
  ratios of small ones; they are reals, and indices and counts are naturals.
\<close>

datatype number = Num real | PosInfinity | NegInfinity | NaN

definition rne :: "real \<Rightarrow> int" where
  "rne x =
     (let f = \<lfloor>x\<rfloor>; r = x - of_int f
      in if r < 1 / 2 then f else if 1 / 2 < r then f + 1 else if even f then f else f + 1)"

fun scale_down :: "nat \<Rightarrow> real \<Rightarrow> real \<Rightarrow> real \<times> real" where
  "scale_down n x q = (if n = 0 \<or> x < 2 ^ 53 then (x, q) else scale_down (n - 1) (x / 2) (2 * q))"

fun scale_up :: "nat \<Rightarrow> real \<Rightarrow> real \<Rightarrow> real \<times> real" where
  "scale_up n x q = (if n = 0 \<or> 2 ^ 52 \<le> x then (x, q) else scale_up (n - 1) (2 * x) (q / 2))"

declare scale_down.simps [simp del] scale_up.simps [simp del]

definition to_double :: "real \<Rightarrow> number" where
  "to_double x =
     (if x = 0 then Num 0
      else (case scale_down 971 \<bar>x\<bar> 1 of (a, q) \<Rightarrow>
            (case scale_up 1074 a q of (b, u) \<Rightarrow>
               (let y = of_int (rne b) * u
                in if 2 ^ 1024 \<le> y then (if 0 < x then PosInfinity else NegInfinity)
                   else Num (sgn x * y)))))"

fun js_minus :: "number \<Rightarrow> number \<Rightarrow> number" where
  "js_minus (Num a) (Num b) = to_double (a - b)"
| "js_minus NaN b = NaN"
| "js_minus a NaN = NaN"
| "js_minus PosInfinity PosInfinity = NaN"
| "js_minus NegInfinity NegInfinity = NaN"
| "js_minus PosInfinity b = PosInfinity"
| "js_minus NegInfinity b = NegInfinity"
| "js_minus (Num a) PosInfinity = NegInfinity"
| "js_minus (Num a) NegInfinity = PosInfinity"

text \<open>
  \<^verbatim>\<open>Math.round\<close>: the nearest integer, ties towards plus infinity. \<^verbatim>\<open>Math.min\<close> and
  \<^verbatim>\<open>Math.max\<close>: \<^verbatim>\<open>NaN\<close> as soon as an argument is.
\<close>

fun Math_round :: "number \<Rightarrow> number" where
  "Math_round (Num x) = Num (of_int \<lfloor>x + 1 / 2\<rfloor>)"
| "Math_round x = x"

fun Math_min :: "number \<Rightarrow> number \<Rightarrow> number" where
  "Math_min NaN b = NaN"
| "Math_min a NaN = NaN"
| "Math_min NegInfinity b = NegInfinity"
| "Math_min a NegInfinity = NegInfinity"
| "Math_min PosInfinity b = b"
| "Math_min a PosInfinity = a"
| "Math_min (Num x) (Num y) = Num (min x y)"

fun Math_max :: "number \<Rightarrow> number \<Rightarrow> number" where
  "Math_max NaN b = NaN"
| "Math_max a NaN = NaN"
| "Math_max PosInfinity b = PosInfinity"
| "Math_max a PosInfinity = PosInfinity"
| "Math_max NegInfinity b = b"
| "Math_max a NegInfinity = a"
| "Math_max (Num x) (Num y) = Num (max x y)"

record video_segment =
  topicSummary :: string
  videoPrompt :: string
  characterId :: "string option"
  startTime :: number
  endTime :: number

record generated_clip =
  segment :: video_segment
  blobUrl :: string

record progress =
  stage :: string
  total :: real
  current :: real
  message :: string

record character =
  char_id :: string
  name :: string
  description :: string
  photoUrl :: string
  photoFile :: "js_file option"

datatype app_state = S_idle | S_processing | S_complete | S_error

section \<open>Values thrown, promises, and the outside world\<close>

text \<open>
  A thrown value is an \<^verbatim>\<open>Error\<close> object with its message, or any other value, kept as what
  \<^verbatim>\<open>String(value)\<close> gives. \<open>errMessage\<close> is the expression
  \<^verbatim>\<open>error instanceof Error ? error.message : String(error)\<close> used by every catch block.
\<close>

datatype thrown = ErrorObj string | Other string

fun errMessage :: "thrown \<Rightarrow> string" where
  "errMessage (ErrorObj m) = m"
| "errMessage (Other s) = s"

text \<open>The state of an awaited promise; \<open>Pending\<close> is a promise that never settles.\<close>

datatype 'a promise = Fulfilled 'a | Rejected thrown | Pending

text \<open>The job handle of the video-synthesis capability, as far as the code reads it.\<close>

record operation =
  op_done :: bool
  op_error :: "string option"
  op_uri :: "string option"

datatype fetch_reply =
    FetchThrows thrown
  | Response bool string "thrown option"

datatype media_op = SetSrc string | SetCurrentTime real | Play | Pause

text \<open>
  Every effect on the outside world is recorded in a trace, in the order it happens.
  \<open>Invoke\<close> and \<open>Settled\<close> mark the call of \<^verbatim>\<open>generateVideoClip\<close> and the settling of the
  promise it returned.
\<close>

datatype event =
    ReadFile js_file
  | GenerateContent "string option"
  | GenerateVideos "string option" string "(string option \<times> string) option" number
  | SetTimeout real
  | GetVideosOperation
  | Fetch string
  | CreateObjectURL string
  | Invoke video_segment "js_file option"
  | Settled "thrown + string"

text \<open>
  The world outside the component: the process environment, the clock, the live blob URLs of
  the page, the service's progress signal, and the replies the external capabilities are
  going to give, in the order the requests are made. A request that finds no reply left
  never resolves. A poll reply carries the milliseconds its round trip takes (any lateness
  of the timer before it included).
\<close>

record world =
  API_KEY :: "string option"
  now :: int
  contentReplies :: "(thrown + video_segment list) list"
  startReplies :: "(thrown + operation) list"
  pollReplies :: "(nat \<times> (thrown + operation)) list"
  fetchReplies :: "fetch_reply list"
  nextBlob :: nat
  objectUrls :: "string list"
  svcProgress :: "progress option"
  trace :: "event list"

definition emit :: "event \<Rightarrow> world \<Rightarrow> world" where
  "emit e w = w\<lparr>trace := trace w @ [e]\<rparr>"

subsection \<open>Strings of numbers\<close>

definition digit :: "nat \<Rightarrow> char" where
  "digit d = ''0123456789'' ! (d mod 10)"

fun showNat :: "nat \<Rightarrow> string" where
  "showNat n = (if n < 10 then [digit n] else showNat (n div 10) @ [digit (n mod 10)])"

declare showNat.simps [simp del]

definition showInt :: "int \<Rightarrow> string" where
  "showInt i = (if i < 0 then CHR ''-'' # showNat (nat (- i)) else showNat (nat i))"

subsection \<open>Browser primitives\<close>

text \<open>\<^verbatim>\<open>URL.createObjectURL\<close>: a fresh blob URL, live until revoked.\<close>

definition createObjectURL :: "world \<Rightarrow> string \<times> world" where
  "createObjectURL w =
     (let url = ''blob:'' @ showNat (nextBlob w)
      in (url, emit (CreateObjectURL url)
                 (w\<lparr>nextBlob := Suc (nextBlob w), objectUrls := objectUrls w @ [url]\<rparr>)))"

text \<open>\<^verbatim>\<open>s.split(',')\<close> and the element at index 1 (\<open>None\<close> is \<^verbatim>\<open>undefined\<close>).\<close>

fun jsSplit :: "char \<Rightarrow> string \<Rightarrow> string list" where
  "jsSplit c [] = [[]]"
| "jsSplit c (x # xs) =
     (if x = c then [] # jsSplit c xs
      else (case jsSplit c xs of [] \<Rightarrow> [[x]] | p # ps \<Rightarrow> (x # p) # ps))"

definition at_index :: "'a list \<Rightarrow> nat \<Rightarrow> 'a option" where
  "at_index xs i = (if i < length xs then Some (xs ! i) else None)"

text \<open>
  Modelled from the spec: the constructor of the SDK's client, \<^verbatim>\<open>new GoogleGenAI({ apiKey })\<close>,
  which is code outside the repository. The specification has the absence of the credential
  fail before any network attempt; the browser build of the SDK throws
  \<^verbatim>\<open>An API Key must be set when running in a browser\<close> for a key that is \<^verbatim>\<open>null\<close> or
  \<^verbatim>\<open>undefined\<close>, and builds the client for any other. The client is looked at here only for
  the key it was built with.
\<close>

definition new_GoogleGenAI :: "string option \<Rightarrow> thrown + string" where
  "new_GoogleGenAI apiKey =
     (case apiKey of
        None \<Rightarrow> Inl (ErrorObj ''An API Key must be set when running in a browser'')
      | Some key \<Rightarrow> Inr key)"

section \<open>GeminiService (services/gemini.service.ts)\<close>

text \<open>
  \<^verbatim>\<open>fileToBase64\<close> and \<^verbatim>\<open>fileToGenerativePart\<close> read the file; a reader error rejects with
  the error event, which is no \<^verbatim>\<open>Error\<close> object.
\<close>

definition fileToBase64 :: "js_file \<Rightarrow> world \<Rightarrow> (string option) promise \<times> world" where
  "fileToBase64 f w =
     (let w1 = emit (ReadFile f) w
      in case dataUrl f of
           None \<Rightarrow> (Rejected (Other ''[object ProgressEvent]''), w1)
         | Some result \<Rightarrow> (Fulfilled (at_index (jsSplit CHR '','' result) 1), w1))"

definition fileToGenerativePart :: "js_file \<Rightarrow> world \<Rightarrow> (string option \<times> string) promise \<times> world" where
  "fileToGenerativePart f w =
     (case fileToBase64 f w of
        (Fulfilled base64, w1) \<Rightarrow> (Fulfilled (base64, mimeType f), w1)
      | (Rejected e, w1) \<Rightarrow> (Rejected e, w1)
      | (Pending, w1) \<Rightarrow> (Pending, w1))"

text \<open>
  \<^verbatim>\<open>transcribeAndSegmentAudio\<close>. The client is built first, from whatever the environment
  holds, and outside the \<^verbatim>\<open>try\<close>. The text of the request is not modelled, and the reply of
  the capability is taken already decoded: \<open>Inl\<close> stands for a failed call or a response that
  does not parse, both of which are thrown inside the same \<^verbatim>\<open>try\<close>.
\<close>

definition transcribeAndSegmentAudio ::
  "js_file \<Rightarrow> string \<Rightarrow> character list \<Rightarrow> world \<Rightarrow> (video_segment list) promise \<times> world" where
  "transcribeAndSegmentAudio audio storyContext chars w =
     (case new_GoogleGenAI (API_KEY w) of
        Inl err \<Rightarrow> (Rejected err, w)
      | Inr ai \<Rightarrow>
     (let w1 = w\<lparr>svcProgress := Some \<lparr>stage = ''Analyzing audio'', total = 1, current = 0,
                                     message = ''Transcribing and creating scenes...''\<rparr>\<rparr>
      in case fileToGenerativePart audio w1 of
           (Rejected e, w2) \<Rightarrow> (Rejected e, w2)
         | (Pending, w2) \<Rightarrow> (Pending, w2)
         | (Fulfilled audioPart, w2) \<Rightarrow>
             (let w3 = emit (GenerateContent (API_KEY w)) w2
              in case contentReplies w3 of
                   [] \<Rightarrow> (Pending, w3)
                 | reply # rest \<Rightarrow>
                     (let w4 = w3\<lparr>contentReplies := rest\<rparr>
                      in case reply of
                           Inr segments \<Rightarrow>
                             (Fulfilled segments,
                              w4\<lparr>svcProgress := Some \<lparr>stage = ''Analyzing audio'', total = 1, current = 1,
                                                       message = ''Audio analysis complete.''\<rparr>\<rparr>)
                         | Inl error \<Rightarrow>
                             (let errorMessage = errMessage error
                              in (Rejected (ErrorObj (''Failed to analyze audio: '' @ errorMessage)),
                                  w4\<lparr>svcProgress := Some \<lparr>stage = ''Error'', total = 1, current = 1,
                                        message = ''Failed to analyze audio: '' @ errorMessage\<rparr>\<rparr>))))))"

text \<open>The clip duration sent with the start request.\<close>

definition clipDuration :: "video_segment \<Rightarrow> number" where
  "clipDuration sg =
     (let duration = Math_round (js_minus (endTime sg) (startTime sg))
      in Math_max (Num 5) (Math_min (Num 8) duration))"

text \<open>
  The timer between two polls, \<^verbatim>\<open>await new Promise(resolve => setTimeout(resolve, wait))\<close>:
  the clock is later by the delay asked for. The poll, \<^verbatim>\<open>ai.operations.getVideosOperation\<close>:
  the next reply of the capability, after its round trip.
\<close>

definition sleep :: "real \<Rightarrow> world \<Rightarrow> world" where
  "sleep ms w = (emit (SetTimeout ms) w)\<lparr>now := now w + max 0 \<lceil>ms\<rceil>\<rparr>"

definition getVideosOperation :: "world \<Rightarrow> operation promise \<times> world" where
  "getVideosOperation w =
     (let w1 = emit GetVideosOperation w
      in case pollReplies w1 of
           [] \<Rightarrow> (Pending, w1)
         | (lag, reply) # rest \<Rightarrow>
             (let w2 = w1\<lparr>now := now w1 + int lag, pollReplies := rest\<rparr>
              in case reply of
                   Inl error \<Rightarrow> (Rejected error, w2)
                 | Inr operation \<Rightarrow> (Fulfilled operation, w2)))"

text \<open>
  The polling loop of \<^verbatim>\<open>generateVideoClip\<close>: the deadline check, the timer, the growth of
  the wait, the poll. The waits the loop reaches from 5000 are whole numbers that double
  precision holds exactly, so real arithmetic is the arithmetic of the code here.
\<close>

function pollLoop :: "int \<Rightarrow> operation \<Rightarrow> real \<Rightarrow> world \<Rightarrow> operation promise \<times> world" where
  "pollLoop deadline operation wait w =
     (if op_done operation then (Fulfilled operation, w)
      else if now w > deadline
        then (Rejected (ErrorObj ''Video generation timed out after 10 minutes.''), w)
      else (let w1 = sleep wait w;
                wait' = min (wait * 1.5) 15000
            in case getVideosOperation w1 of
                 (Pending, w2) \<Rightarrow> (Pending, w2)
               | (Rejected error, w2) \<Rightarrow>
                   (Rejected (ErrorObj (''Polling for video failed: '' @ errMessage error)), w2)
               | (Fulfilled operation', w2) \<Rightarrow> pollLoop deadline operation' wait' w2))"
  by pat_completeness auto
termination
  by (relation "measure (\<lambda>(deadline, operation, wait, w). length (pollReplies w))")
     (auto simp: getVideosOperation_def sleep_def emit_def Let_def split: list.splits sum.splits)

declare pollLoop.simps [simp del]

text \<open>The download of the finished asset, the last \<^verbatim>\<open>try\<close> block.\<close>

definition download :: "string \<Rightarrow> string \<Rightarrow> world \<Rightarrow> string promise \<times> world" where
  "download downloadLink apiKey w =
     (let w1 = emit (Fetch (downloadLink @ ''&key='' @ apiKey)) w
      in case fetchReplies w1 of
           [] \<Rightarrow> (Pending, w1)
         | reply # rest \<Rightarrow>
             (let w2 = w1\<lparr>fetchReplies := rest\<rparr>
              in case reply of
                   FetchThrows error \<Rightarrow>
                     (Rejected (ErrorObj (''Downloading video failed: '' @ errMessage error)), w2)
                 | Response ok statusText blobFailure \<Rightarrow>
                     if \<not> ok
                     then (Rejected (ErrorObj (''Downloading video failed: '' @
                                               (''Failed to download video: '' @ statusText))), w2)
                     else (case blobFailure of
                             Some error \<Rightarrow>
                               (Rejected (ErrorObj (''Downloading video failed: '' @ errMessage error)), w2)
                           | None \<Rightarrow>
                               (case createObjectURL w2 of (url, w3) \<Rightarrow> (Fulfilled url, w3)))))"

text \<open>What \<^verbatim>\<open>generateVideoClip\<close> does once the credential and the image part are there.\<close>

definition startAndPoll ::
  "video_segment \<Rightarrow> string \<Rightarrow> (string option \<times> string) option \<Rightarrow> world \<Rightarrow> string promise \<times> world" where
  "startAndPoll sg apiKey imagePart w =
     (let w1 = emit (GenerateVideos (Some apiKey) (videoPrompt sg) imagePart (clipDuration sg)) w
      in case startReplies w1 of
           [] \<Rightarrow> (Pending, w1)
         | reply # rest \<Rightarrow>
             (let w2 = w1\<lparr>startReplies := rest\<rparr>
              in case reply of
                   Inl error \<Rightarrow>
                     (Rejected (ErrorObj (''Failed to start video generation: '' @ errMessage error)), w2)
                 | Inr operation0 \<Rightarrow>
                     (let wait = 5000;
                          deadline = now w2 + 10 * 60 * 1000
                      in case pollLoop deadline operation0 wait w2 of
                           (Pending, w3) \<Rightarrow> (Pending, w3)
                         | (Rejected e, w3) \<Rightarrow> (Rejected e, w3)
                         | (Fulfilled operation, w3) \<Rightarrow>
                             (case op_error operation of
                                Some msg \<Rightarrow>
                                  (Rejected (ErrorObj (''Video generation failed: '' @ msg)), w3)
                              | None \<Rightarrow>
                                  (case op_uri operation of
                                     None \<Rightarrow> (Rejected (ErrorObj
                                       ''Video generation succeeded, but no download link was returned.''), w3)
                                   | Some downloadLink \<Rightarrow>
                                       (if downloadLink = ''''
                                        then (Rejected (ErrorObj
                                          ''Video generation succeeded, but no download link was returned.''), w3)
                                        else download downloadLink apiKey w3))))))"

text \<open>The body of \<^verbatim>\<open>generateVideoClip\<close>: an absent or empty credential is falsy.\<close>

definition generateVideoClip_body ::
  "video_segment \<Rightarrow> js_file option \<Rightarrow> world \<Rightarrow> string promise \<times> world" where
  "generateVideoClip_body sg characterPhoto w =
     (case API_KEY w of
        None \<Rightarrow> (Rejected (ErrorObj
          ''API Key is not available. Ensure the API_KEY environment variable is set.''), w)
      | Some apiKey \<Rightarrow>
          if apiKey = ''''
          then (Rejected (ErrorObj
            ''API Key is not available. Ensure the API_KEY environment variable is set.''), w)
          else (case new_GoogleGenAI (Some apiKey) of
                  Inl err \<Rightarrow> (Rejected err, w)
                | Inr ai \<Rightarrow>
               (case characterPhoto of
                  None \<Rightarrow> startAndPoll sg apiKey None w
                | Some photo \<Rightarrow>
                    (case fileToBase64 photo w of
                       (Rejected e, w1) \<Rightarrow> (Rejected e, w1)
                     | (Pending, w1) \<Rightarrow> (Pending, w1)
                     | (Fulfilled base64Image, w1) \<Rightarrow>
                         startAndPoll sg apiKey (Some (base64Image, mimeType photo)) w1))))"

text \<open>The call as its caller sees it: invoked, and later settled (or never).\<close>

definition generateVideoClip ::
  "video_segment \<Rightarrow> js_file option \<Rightarrow> world \<Rightarrow> string promise \<times> world" where
  "generateVideoClip sg characterPhoto w =
     (case generateVideoClip_body sg characterPhoto (emit (Invoke sg characterPhoto) w) of
        (Fulfilled url, w1) \<Rightarrow> (Fulfilled url, emit (Settled (Inr url)) w1)
      | (Rejected e, w1) \<Rightarrow> (Rejected e, emit (Settled (Inl e)) w1)
      | (Pending, w1) \<Rightarrow> (Pending, w1))"

section \<open>AppComponent\<close>

text \<open>
  The signals of the component. A media element is the list of commands the code has given
  it; a \<^verbatim>\<open>ViewChild\<close> that is not bound is \<open>None\<close>. Each handler is modelled as it runs
  on its own, from its call to its last statement; what the page does while
  \<^verbatim>\<open>generateStory\<close> awaits, and the effect that copies the service's progress signal into the
  component's, are outside these functions.
\<close>

record app =
  status :: app_state
  audioFile :: "js_file option"
  audioUrl :: "string option"
  characters :: "character list"
  storyContext :: string
  generatedClips :: "generated_clip list"
  errorMsg :: string
  currentClipIndex :: nat
  progress :: progress
  videoPlayer :: "media_op list option"
  audioPlayer :: "media_op list option"

text \<open>
  The JavaScript division of finite numbers: a zero divisor gives no finite number
  (\<^verbatim>\<open>NaN\<close> or an infinity), which is \<open>None\<close> here.
\<close>

definition js_divide :: "real \<Rightarrow> real \<Rightarrow> real option" where
  "js_divide a b = (if b = 0 then None else Some (a / b))"

definition progressPercentage :: "app \<Rightarrow> real option" where
  "progressPercentage s =
     (let p = progress s
      in if total p = 0 then Some 0
         else map_option (\<lambda>q. q * 100) (js_divide (current p) (total p)))"

definition currentClipUrl :: "app \<Rightarrow> string" where
  "currentClipUrl s =
     (case at_index (generatedClips s) (currentClipIndex s) of
        None \<Rightarrow> ''''
      | Some clip \<Rightarrow> blobUrl clip)"

definition addCharacter :: "app \<Rightarrow> world \<Rightarrow> app" where
  "addCharacter s w =
     s\<lparr>characters := characters s @
          [\<lparr>char_id = ''char_'' @ showInt (now w), name = '''', description = '''',
            photoUrl = '''', photoFile = None\<rparr>]\<rparr>"

text \<open>
  The photo handed to the generator:
  \<^verbatim>\<open>this.characters().find(c => c.id === segment.characterId)?.photoFile ?? null\<close>.
\<close>

definition photoOf :: "character list \<Rightarrow> video_segment \<Rightarrow> js_file option" where
  "photoOf chars sg =
     (case find (\<lambda>c. Some (char_id c) = characterId sg) chars of
        None \<Rightarrow> None
      | Some c \<Rightarrow> photoFile c)"

text \<open>The loop over the segments, at index \<open>i\<close> with the segments from \<open>i\<close> on still to do.\<close>

fun clipLoop :: "nat \<Rightarrow> video_segment list \<Rightarrow> nat \<Rightarrow> app \<Rightarrow> world \<Rightarrow> unit promise \<times> app \<times> world" where
  "clipLoop n [] i s w = (Fulfilled (), s, w)"
| "clipLoop n (sg # rest) i s w =
     (let s1 = s\<lparr>progress := (progress s)
                 \<lparr>current := real i,
                  message := ''Generating clip '' @ showNat (i + 1) @ ''/'' @ showNat n @ '': ''
                             @ topicSummary sg\<rparr>\<rparr>;
          photo = photoOf (characters s1) sg
      in case generateVideoClip sg photo w of
           (Pending, w1) \<Rightarrow> (Pending, s1, w1)
         | (Rejected e, w1) \<Rightarrow> (Rejected e, s1, w1)
         | (Fulfilled url, w1) \<Rightarrow>
             clipLoop n rest (Suc i)
               (s1\<lparr>generatedClips := generatedClips s1 @ [\<lparr>segment = sg, blobUrl = url\<rparr>]\<rparr>) w1)"

text \<open>The \<^verbatim>\<open>catch\<close> block of \<^verbatim>\<open>generateStory\<close>.\<close>

definition onFailure :: "thrown \<Rightarrow> app \<Rightarrow> app" where
  "onFailure error s =
     (let message = errMessage error
      in s\<lparr>errorMsg := message, status := S_error,
           progress := (progress s)\<lparr>stage := ''Error'', message := message\<rparr>\<rparr>)"

definition generateStory :: "app \<Rightarrow> world \<Rightarrow> unit promise \<times> app \<times> world" where
  "generateStory s w =
     (case audioFile s of
        None \<Rightarrow> (Fulfilled (), s, w)
      | Some audio \<Rightarrow>
          (let s1 = s\<lparr>status := S_processing, generatedClips := [], errorMsg := ''''\<rparr>
           in case transcribeAndSegmentAudio audio (storyContext s1) (characters s1) w of
                (Pending, w1) \<Rightarrow> (Pending, s1, w1)
              | (Rejected e, w1) \<Rightarrow> (Fulfilled (), onFailure e s1, w1)
              | (Fulfilled segments, w1) \<Rightarrow>
                  (let s2 = s1\<lparr>progress := \<lparr>stage = ''Generating clips'', total = real (length segments),
                                             current = 0, message = ''Starting video generation...''\<rparr>\<rparr>
                   in case clipLoop (length segments) segments 0 s2 w1 of
                        (Pending, s3, w3) \<Rightarrow> (Pending, s3, w3)
                      | (Rejected e, s3, w3) \<Rightarrow> (Fulfilled (), onFailure e s3, w3)
                      | (Fulfilled u, s3, w3) \<Rightarrow>
                          (Fulfilled (),
                           s3\<lparr>progress := \<lparr>stage = ''Finished'', total = real (length segments),
                                           current = real (length segments),
                                           message = ''All clips generated!''\<rparr>,
                              status := S_complete\<rparr>, w3))))"

subsection \<open>Playback\<close>

definition playStory :: "app \<Rightarrow> app" where
  "playStory s =
     (case (audioPlayer s, videoPlayer s) of
        (Some audio, Some video) \<Rightarrow>
          if length (generatedClips s) = 0 then s
          else (let s1 = s\<lparr>currentClipIndex := 0\<rparr>;
                    video1 = video @ [SetSrc (currentClipUrl s1)];
                    audio1 = audio @ [SetCurrentTime 0];
                    audio2 = audio1 @ [Play];
                    video2 = video1 @ [Play]
                in s1\<lparr>videoPlayer := Some video2, audioPlayer := Some audio2\<rparr>)
      | _ \<Rightarrow> s)"

text \<open>
  \<^verbatim>\<open>handleVideoEnded\<close>; reaching for the element of an unbound player throws a
  \<^verbatim>\<open>TypeError\<close>, after whatever was done before.
\<close>

definition handleVideoEnded :: "app \<Rightarrow> thrown option \<times> app" where
  "handleVideoEnded s =
     (let nextIndex = currentClipIndex s + 1
      in if nextIndex < length (generatedClips s)
         then (let s1 = s\<lparr>currentClipIndex := nextIndex\<rparr>
               in case videoPlayer s1 of
                    None \<Rightarrow> (Some (ErrorObj ''TypeError''), s1)
                  | Some video \<Rightarrow>
                      (None, s1\<lparr>videoPlayer := Some (video @ [SetSrc (currentClipUrl s1), Play])\<rparr>))
         else (case audioPlayer s of
                 None \<Rightarrow> (Some (ErrorObj ''TypeError''), s)
               | Some audio \<Rightarrow> (None, s\<lparr>audioPlayer := Some (audio @ [Pause])\<rparr>)))"

subsection \<open>Reset\<close>

definition startOver :: "app \<Rightarrow> world \<Rightarrow> app \<times> world" where
  "startOver s w =
     (let s1 = s\<lparr>status := S_idle, audioFile := None, audioUrl := None, storyContext := '''',
                 characters := [], generatedClips := [], errorMsg := ''''\<rparr>;
          w1 = w\<lparr>svcProgress := None\<rparr>
      in (addCharacter s1 w1, w1))"

section \<open>Reading the trace\<close>

text \<open>The durations of the start requests, in order.\<close>

fun durations :: "event list \<Rightarrow> number list" where
  "durations [] = []"
| "durations (GenerateVideos k p i d # es) = d # durations es"
| "durations (e # es) = durations es"

text \<open>The outcomes of the generator invocations that settled, in order.\<close>

fun settled :: "event list \<Rightarrow> (thrown + string) list" where
  "settled [] = []"
| "settled (Settled r # es) = r # settled es"
| "settled (e # es) = settled es"

fun isInvocation :: "event \<Rightarrow> bool" where
  "isInvocation (Invoke sg ph) = True"
| "isInvocation (Settled r) = True"
| "isInvocation e = False"

text \<open>The requests that go to the network.\<close>

fun isNetwork :: "event \<Rightarrow> bool" where
  "isNetwork (GenerateContent k) = True"
| "isNetwork (GenerateVideos k p i d) = True"
| "isNetwork GetVideosOperation = True"
| "isNetwork (Fetch u) = True"
| "isNetwork e = False"

text \<open>The timers and the polls.\<close>

fun isPolling :: "event \<Rightarrow> bool" where
  "isPolling (SetTimeout ms) = True"
| "isPolling GetVideosOperation = True"
| "isPolling e = False"

text \<open>A call of the generator for a segment, and its outcome; the clip made of a segment.\<close>

definition invocation :: "character list \<Rightarrow> video_segment \<Rightarrow> thrown + string \<Rightarrow> event list" where
  "invocation chars sg r = [Invoke sg (photoOf chars sg), Settled r]"

definition clipOf :: "video_segment \<Rightarrow> string \<Rightarrow> generated_clip" where
  "clipOf sg url = \<lparr>segment = sg, blobUrl = url\<rparr>"

text \<open>
  The backoff as the specification words it: 5000 ms first, each later wait the one before
  times 1.5, capped at 15000 ms.
\<close>

fun spec_backoff :: "nat \<Rightarrow> real" where
  "spec_backoff 0 = 5000"
| "spec_backoff (Suc k) = min (spec_backoff k * 1.5) 15000"

text \<open>
  \<open>n\<close> rounds of polling from wait number \<open>j\<close> of the backoff on: a timer of that wait, then a
  poll, for each.
\<close>

definition polling :: "nat \<Rightarrow> nat \<Rightarrow> event list" where
  "polling j n = concat (map (\<lambda>k. [SetTimeout (spec_backoff k), GetVideosOperation]) [j..<j + n])"

text \<open>
  The clock at each deadline check of the loop, from wait number \<open>j\<close> on, when the polls are
  answered with the round trips given: each check is a wait of the backoff and a round trip
  later than the one before.
\<close>

fun checkTimes :: "int \<Rightarrow> nat \<Rightarrow> nat list \<Rightarrow> int list" where
  "checkTimes t j [] = [t]"
| "checkTimes t j (lag # lags) = t # checkTimes (t + \<lceil>spec_backoff j\<rceil> + int lag) (Suc j) lags"

text \<open>
  A call of \<^verbatim>\<open>generateVideoClip\<close> comes to its start request when the credential is there
  and the photo, if there is one, can be read.
\<close>

definition sendsStart :: "world \<Rightarrow> js_file option \<Rightarrow> bool" where
  "sendsStart w characterPhoto =
     ((case API_KEY w of None \<Rightarrow> False | Some key \<Rightarrow> key \<noteq> '''')
      \<and> (case characterPhoto of None \<Rightarrow> True | Some photo \<Rightarrow> dataUrl photo \<noteq> None))"


section \<open>Sample inputs\<close>

definition sample_segment :: video_segment where
  "sample_segment = \<lparr>topicSummary = ''intro'', videoPrompt = ''A fox runs'', characterId = None,
                      startTime = Num 0, endTime = Num (7 / 2)\<rparr>"

definition second_segment :: video_segment where
  "second_segment = \<lparr>topicSummary = ''take-off'', videoPrompt = ''Mira starts the engine'',
                      characterId = Some ''char_1'', startTime = Num (7 / 2), endTime = Num 10\<rparr>"


definition sample_audio :: js_file where
  "sample_audio = \<lparr>mimeType = ''audio/mpeg'', dataUrl = Some ''data:audio/mpeg;base64,QUJD''\<rparr>"

definition sample_photo :: js_file where
  "sample_photo = \<lparr>mimeType = ''image/png'', dataUrl = Some ''data:image/png;base64,iVBO''\<rparr>"

definition hero :: character where
  "hero = \<lparr>char_id = ''char_1'', name = ''Mira'', description = ''a young pilot'',
           photoUrl = ''blob:photo'', photoFile = Some sample_photo\<rparr>"

definition op_running :: operation where
  "op_running = \<lparr>op_done = False, op_error = None, op_uri = None\<rparr>"

definition op_finished :: "string \<Rightarrow> operation" where
  "op_finished uri = \<lparr>op_done = True, op_error = None, op_uri = Some uri\<rparr>"

definition sample_world :: world where
  "sample_world = \<lparr>API_KEY = Some ''key'', now = 0, contentReplies = [], startReplies = [],
                    pollReplies = [], fetchReplies = [], nextBlob = 0, objectUrls = [],
                    svcProgress = None, trace = []\<rparr>"

definition sample_clip :: "string \<Rightarrow> generated_clip" where
  "sample_clip url = \<lparr>segment = sample_segment, blobUrl = url\<rparr>"

definition sample_app :: app where
  "sample_app = \<lparr>status = S_complete, audioFile = None, audioUrl = None, characters = [],
                  storyContext = '''', generatedClips = [sample_clip ''blob:0'', sample_clip ''blob:1'', sample_clip ''blob:2''],
                  errorMsg = '''', currentClipIndex = 0,
                  progress = \<lparr>stage = ''Finished'', total = 3, current = 3, message = ''All clips generated!''\<rparr>,
                  videoPlayer = Some [], audioPlayer = Some []\<rparr>"

definition story_app :: app where
  "story_app = sample_app\<lparr>status := S_idle, audioFile := Some sample_audio, characters := [hero],
                           generatedClips := []\<rparr>"

definition keyless_world :: world where
  "keyless_world = sample_world\<lparr>API_KEY := None, contentReplies := [Inr [sample_segment]],
                                 startReplies := [Inr (op_finished ''https://v/1?x=1'')]\<rparr>"

definition five_poll_world :: world where
  "five_poll_world = sample_world\<lparr>startReplies := [Inr op_running],
       pollReplies := [(0, Inr op_running), (20, Inr op_running), (0, Inr op_running),
                       (3, Inr op_running), (0, Inr (op_finished ''https://v/1?x=1''))],
       fetchReplies := [Response True ''OK'' None]\<rparr>"

definition slow_first_world :: world where
  "slow_first_world = sample_world\<lparr>startReplies := [Inr op_running],
       pollReplies := (7000, Inr op_running) # replicate 49 (0, Inr op_running)\<rparr>"

definition hung_world :: world where
  "hung_world = sample_world\<lparr>startReplies := [Inr op_running],
                              pollReplies := replicate 41 (0, Inr op_running)\<rparr>"

definition empty_story_world :: world where
  "empty_story_world = sample_world\<lparr>contentReplies := [Inr []]\<rparr>"

definition late_world :: world where
  "late_world = sample_world\<lparr>startReplies := [Inr op_running],
       pollReplies := replicate 41 (0, Inr op_running) @ [(0, Inr (op_finished ''https://v/1?x=1''))],
       fetchReplies := [Response True ''OK'' None]\<rparr>"

definition one_clip_world :: world where
  "one_clip_world = sample_world\<lparr>contentReplies := [Inr [sample_segment]],
                                  startReplies := [Inr (op_finished ''https://v/1?x=1'')],
                                  fetchReplies := [Response True ''OK'' None]\<rparr>"

definition two_clip_world :: world where
  "two_clip_world = sample_world\<lparr>contentReplies := [Inr [sample_segment, second_segment]],
       startReplies := [Inr (op_finished ''https://v/1?x=1''), Inr op_running],
       pollReplies := [(120, Inr (op_finished ''https://v/2?x=1''))],
       fetchReplies := [Response True ''OK'' None, Response True ''OK'' None]\<rparr>"

definition failing_segmenter_world :: world where
  "failing_segmenter_world = sample_world\<lparr>contentReplies := [Inl (ErrorObj ''quota exceeded'')]\<rparr>"

definition failing_second_world :: world where
  "failing_second_world = sample_world\<lparr>contentReplies := [Inr [sample_segment, second_segment, sample_segment]],
       startReplies := [Inr (op_finished ''https://v/1?x=1''), Inl (ErrorObj ''unavailable'')],
       fetchReplies := [Response True ''OK'' None]\<rparr>"

section \<open>What the operations add to the trace\<close>

lemma durations_append: "durations (xs @ ys) = durations xs @ durations ys"
  by (induction xs rule: durations.induct) auto

lemma settled_append: "settled (xs @ ys) = settled xs @ settled ys"
  by (induction xs rule: settled.induct) auto

lemma settled_filter: "settled (filter isInvocation es) = settled es"
  by (induction es rule: settled.induct) auto

lemma upt_from: "[j..<j + Suc n] = j # [Suc j..<Suc j + n]"
  by (simp add: upt_conv_Cons del: upt_Suc)

lemma polling_0: "polling j 0 = []"
  by (simp add: polling_def)

lemma polling_Suc:
  "polling j (Suc n) = SetTimeout (spec_backoff j) # GetVideosOperation # polling (Suc j) n"
  unfolding polling_def upt_from by simp

lemma poll_step:
  "getVideosOperation (sleep wt w) = (g, w2) \<Longrightarrow>
   trace w2 = trace w @ [SetTimeout wt, GetVideosOperation]
   \<and> pollReplies w2 = drop 1 (pollReplies w)"
  by (auto simp: getVideosOperation_def sleep_def emit_def Let_def drop_Suc
           split: list.splits sum.splits)

lemma pollLoop_facts:
  "wt = spec_backoff j \<Longrightarrow>
   (\<exists>n. filter isPolling (trace (snd (pollLoop d op wt w)))
          = filter isPolling (trace w) @ polling j n
        \<and> pollReplies (snd (pollLoop d op wt w)) = drop n (pollReplies w))
   \<and> durations (trace (snd (pollLoop d op wt w))) = durations (trace w)
   \<and> filter isInvocation (trace (snd (pollLoop d op wt w))) = filter isInvocation (trace w)
   \<and> (\<forall>e. fst (pollLoop d op wt w) = Rejected e \<longrightarrow> errMessage e \<noteq> [])"
proof (induction d op wt w arbitrary: j rule: pollLoop.induct)
  case (1 deadline operation wait w)
  note wt = \<open>wait = spec_backoff j\<close>
  show ?case
  proof (cases "op_done operation \<or> now w > deadline")
    case True
    then have "pollLoop deadline operation wait w = (Fulfilled operation, w)
       \<or> pollLoop deadline operation wait w
           = (Rejected (ErrorObj ''Video generation timed out after 10 minutes.''), w)"
      by (auto simp: pollLoop.simps)
    then show ?thesis
      by (auto simp: polling_0 intro: exI[of _ 0])
  next
    case unsettled: False
    then have nd: "\<not> op_done operation" and nt: "\<not> deadline < now w" by auto
    define w1 where "w1 = sleep wait w"
    obtain g w2 where gv: "getVideosOperation w1 = (g, w2)"
      by (cases "getVideosOperation w1")
    from poll_step[OF gv[unfolded w1_def]]
    have tr2: "trace w2 = trace w @ [SetTimeout (spec_backoff j), GetVideosOperation]"
      and rp2: "pollReplies w2 = drop 1 (pollReplies w)"
      by (simp_all add: wt)
    have "filter isPolling (trace w2) = filter isPolling (trace w) @ polling j 1"
      by (simp add: tr2 polling_Suc polling_0)
    with rp2 have one: "\<exists>n. filter isPolling (trace w2) = filter isPolling (trace w) @ polling j n
                           \<and> pollReplies w2 = drop n (pollReplies w)"
      by blast
    have same: "durations (trace w2) = durations (trace w)"
      "filter isInvocation (trace w2) = filter isInvocation (trace w)"
      by (simp_all add: tr2 durations_append)
    show ?thesis
    proof (cases g)
      case Pending
      with nd nt gv have "pollLoop deadline operation wait w = (Pending, w2)"
        by (simp add: pollLoop.simps[of deadline operation wait w] w1_def Let_def)
      then show ?thesis using one same by simp
    next
      case (Rejected e)
      with nd nt gv have "pollLoop deadline operation wait w =
            (Rejected (ErrorObj (''Polling for video failed: '' @ errMessage e)), w2)"
        by (simp add: pollLoop.simps[of deadline operation wait w] w1_def Let_def)
      then show ?thesis using one same by simp
    next
      case (Fulfilled op')
      with nd nt gv
      have step: "pollLoop deadline operation wait w
                  = pollLoop deadline op' (min (wait * 1.5) 15000) w2"
        by (simp add: pollLoop.simps[of deadline operation wait w] w1_def Let_def)
      have next_wait: "min (wait * 1.5) 15000 = spec_backoff (Suc j)"
        by (simp add: wt)
      note IH = "1.IH"[OF nd nt w1_def refl gv[symmetric, unfolded Fulfilled] refl next_wait]
      from IH obtain n where
        n: "filter isPolling (trace (snd (pollLoop deadline op' (min (wait * 1.5) 15000) w2)))
            = filter isPolling (trace w2) @ polling (Suc j) n"
           "pollReplies (snd (pollLoop deadline op' (min (wait * 1.5) 15000) w2))
            = drop n (pollReplies w2)"
        by blast
      have "filter isPolling (trace (snd (pollLoop deadline operation wait w)))
            = filter isPolling (trace w) @ polling j (Suc n)
            \<and> pollReplies (snd (pollLoop deadline operation wait w)) = drop (Suc n) (pollReplies w)"
        unfolding step n tr2 rp2 by (simp add: polling_Suc)
      then have "\<exists>n. filter isPolling (trace (snd (pollLoop deadline operation wait w)))
            = filter isPolling (trace w) @ polling j n
            \<and> pollReplies (snd (pollLoop deadline operation wait w)) = drop n (pollReplies w)"
        by blast
      then show ?thesis using IH unfolding step tr2
        by (simp add: durations_append)
    qed
  qed
qed

lemma fileToBase64_facts:
  "filter isPolling (trace (snd (fileToBase64 f w))) = filter isPolling (trace w)
   \<and> pollReplies (snd (fileToBase64 f w)) = pollReplies w
   \<and> durations (trace (snd (fileToBase64 f w))) = durations (trace w)
   \<and> filter isInvocation (trace (snd (fileToBase64 f w))) = filter isInvocation (trace w)
   \<and> (\<forall>e. fst (fileToBase64 f w) = Rejected e \<longrightarrow> errMessage e \<noteq> [])"
  by (simp add: fileToBase64_def emit_def durations_append Let_def split: option.splits)

lemma download_facts:
  "filter isPolling (trace (snd (download l k w))) = filter isPolling (trace w)
   \<and> pollReplies (snd (download l k w)) = pollReplies w
   \<and> durations (trace (snd (download l k w))) = durations (trace w)
   \<and> filter isInvocation (trace (snd (download l k w))) = filter isInvocation (trace w)
   \<and> (\<forall>e. fst (download l k w) = Rejected e \<longrightarrow> errMessage e \<noteq> [])"
  by (simp add: download_def createObjectURL_def emit_def durations_append Let_def
           split: list.splits fetch_reply.splits option.splits)

lemma startAndPoll_facts:
  "(\<exists>n. filter isPolling (trace (snd (startAndPoll sg k img w)))
          = filter isPolling (trace w) @ polling 0 n
        \<and> pollReplies (snd (startAndPoll sg k img w)) = drop n (pollReplies w))
   \<and> durations (trace (snd (startAndPoll sg k img w))) = durations (trace w) @ [clipDuration sg]
   \<and> filter isInvocation (trace (snd (startAndPoll sg k img w))) = filter isInvocation (trace w)
   \<and> (\<forall>e. fst (startAndPoll sg k img w) = Rejected e \<longrightarrow> errMessage e \<noteq> [])"
proof -
  define w1 where "w1 = emit (GenerateVideos (Some k) (videoPrompt sg) img (clipDuration sg)) w"
  have w1: "filter isPolling (trace w1) = filter isPolling (trace w)"
    "pollReplies w1 = pollReplies w"
    "durations (trace w1) = durations (trace w) @ [clipDuration sg]"
    "filter isInvocation (trace w1) = filter isInvocation (trace w)"
    by (simp_all add: w1_def emit_def durations_append)
  show ?thesis
  proof (cases "startReplies w1")
    case Nil
    then have "startAndPoll sg k img w = (Pending, w1)"
      by (simp add: startAndPoll_def w1_def[symmetric] Let_def)
    then show ?thesis using w1 by (auto simp: polling_0 intro: exI[of _ 0])
  next
    case (Cons reply rest)
    define w2 where "w2 = w1\<lparr>startReplies := rest\<rparr>"
    have w2: "trace w2 = trace w1" "pollReplies w2 = pollReplies w1" by (simp_all add: w2_def)
    show ?thesis
    proof (cases reply)
      case (Inl error)
      with Cons have "startAndPoll sg k img w =
         (Rejected (ErrorObj (''Failed to start video generation: '' @ errMessage error)), w2)"
        by (simp add: startAndPoll_def w1_def[symmetric] w2_def Let_def)
      then show ?thesis using w1 w2 by (auto simp: polling_0 intro: exI[of _ 0])
    next
      case (Inr op0)
      define pl where "pl = pollLoop (now w1 + 10 * 60 * 1000) op0 5000 w2"
      have b0: "(5000::real) = spec_backoff 0" by simp
      note pf = pollLoop_facts[OF b0, of "now w1 + 10 * 60 * 1000" op0 w2, folded pl_def]
      from pf obtain n where n: "filter isPolling (trace (snd pl)) = filter isPolling (trace w2) @ polling 0 n"
        "pollReplies (snd pl) = drop n (pollReplies w2)"
        by blast
      have eq: "startAndPoll sg k img w =
        (case pl of
           (Pending, w3) \<Rightarrow> (Pending, w3)
         | (Rejected e, w3) \<Rightarrow> (Rejected e, w3)
         | (Fulfilled operation, w3) \<Rightarrow>
             (case op_error operation of
                Some msg \<Rightarrow> (Rejected (ErrorObj (''Video generation failed: '' @ msg)), w3)
              | None \<Rightarrow>
                  (case op_uri operation of
                     None \<Rightarrow> (Rejected (ErrorObj
                       ''Video generation succeeded, but no download link was returned.''), w3)
                   | Some downloadLink \<Rightarrow>
                       (if downloadLink = ''''
                        then (Rejected (ErrorObj
                          ''Video generation succeeded, but no download link was returned.''), w3)
                        else download downloadLink k w3))))"
        using Cons Inr
        by (simp add: startAndPoll_def w1_def[symmetric] w2_def[symmetric] pl_def Let_def)
      obtain r w3 where pl: "pl = (r, w3)" by (cases pl)
      have "filter isPolling (trace (snd (startAndPoll sg k img w))) = filter isPolling (trace w3)
            \<and> pollReplies (snd (startAndPoll sg k img w)) = pollReplies w3
            \<and> durations (trace (snd (startAndPoll sg k img w))) = durations (trace w3)
            \<and> filter isInvocation (trace (snd (startAndPoll sg k img w))) = filter isInvocation (trace w3)
            \<and> (\<forall>e. fst (startAndPoll sg k img w) = Rejected e \<longrightarrow> errMessage e \<noteq> [])"
        using pf download_facts unfolding eq pl
        by (auto split: promise.splits option.splits)
      then show ?thesis using n pf w1 w2 unfolding pl
        by auto
    qed
  qed
qed

lemma body_facts:
  "(\<exists>n. filter isPolling (trace (snd (generateVideoClip_body sg ph w)))
          = filter isPolling (trace w) @ polling 0 n
        \<and> pollReplies (snd (generateVideoClip_body sg ph w)) = drop n (pollReplies w))
   \<and> durations (trace (snd (generateVideoClip_body sg ph w)))
       = durations (trace w) @ (if sendsStart w ph then [clipDuration sg] else [])
   \<and> filter isInvocation (trace (snd (generateVideoClip_body sg ph w))) = filter isInvocation (trace w)
   \<and> (\<forall>e. fst (generateVideoClip_body sg ph w) = Rejected e \<longrightarrow> errMessage e \<noteq> [])"
proof (cases "API_KEY w = None \<or> API_KEY w = Some ''''")
  case True
  then have "generateVideoClip_body sg ph w = (Rejected (ErrorObj
      ''API Key is not available. Ensure the API_KEY environment variable is set.''), w)"
    by (auto simp: generateVideoClip_body_def)
  moreover from True have "\<not> sendsStart w ph" by (auto simp: sendsStart_def)
  ultimately show ?thesis by (auto simp: polling_0 intro: exI[of _ 0])
next
  case False
  then obtain k where k: "API_KEY w = Some k" "k \<noteq> ''''" by auto
  show ?thesis
  proof (cases ph)
    case None
    with k have "generateVideoClip_body sg ph w = startAndPoll sg k None w"
      by (simp add: generateVideoClip_body_def new_GoogleGenAI_def)
    moreover from k None have "sendsStart w ph" by (simp add: sendsStart_def)
    ultimately show ?thesis using startAndPoll_facts[of sg k None w] by simp
  next
    case (Some photo)
    show ?thesis
    proof (cases "dataUrl photo")
      case None
      with k Some have "generateVideoClip_body sg ph w =
          (Rejected (Other ''[object ProgressEvent]''), emit (ReadFile photo) w)"
        by (simp add: generateVideoClip_body_def new_GoogleGenAI_def fileToBase64_def Let_def)
      moreover from None Some have "\<not> sendsStart w ph" by (simp add: sendsStart_def)
      ultimately show ?thesis
        by (auto simp: emit_def durations_append polling_0 intro: exI[of _ 0])
    next
      case (Some result)
      with k \<open>ph = Some photo\<close> have "generateVideoClip_body sg ph w =
          startAndPoll sg k (Some (at_index (jsSplit CHR '','' result) 1, mimeType photo))
            (emit (ReadFile photo) w)"
        by (simp add: generateVideoClip_body_def new_GoogleGenAI_def fileToBase64_def Let_def)
      moreover from k Some \<open>ph = Some photo\<close> have "sendsStart w ph" by (simp add: sendsStart_def)
      ultimately show ?thesis
        using startAndPoll_facts[of sg k "Some (at_index (jsSplit CHR '','' result) 1, mimeType photo)"
                                    "emit (ReadFile photo) w"]
        by (simp add: emit_def durations_append)
    qed
  qed
qed

lemma generateVideoClip_facts:
  "(\<exists>n. filter isPolling (trace (snd (generateVideoClip sg ph w)))
          = filter isPolling (trace w) @ polling 0 n
        \<and> pollReplies (snd (generateVideoClip sg ph w)) = drop n (pollReplies w))
   \<and> durations (trace (snd (generateVideoClip sg ph w)))
       = durations (trace w) @ (if sendsStart w ph then [clipDuration sg] else [])
   \<and> filter isInvocation (trace (snd (generateVideoClip sg ph w)))
       = filter isInvocation (trace w) @ Invoke sg ph #
           (case fst (generateVideoClip sg ph w) of
              Fulfilled url \<Rightarrow> [Settled (Inr url)]
            | Rejected e \<Rightarrow> [Settled (Inl e)]
            | Pending \<Rightarrow> [])
   \<and> (\<forall>e. fst (generateVideoClip sg ph w) = Rejected e \<longrightarrow> errMessage e \<noteq> [])"
proof -
  define w0 where "w0 = emit (Invoke sg ph) w"
  have w0: "filter isPolling (trace w0) = filter isPolling (trace w)"
    "pollReplies w0 = pollReplies w" "durations (trace w0) = durations (trace w)"
    "filter isInvocation (trace w0) = filter isInvocation (trace w) @ [Invoke sg ph]"
    "sendsStart w0 ph = sendsStart w ph"
    by (simp_all add: w0_def emit_def durations_append sendsStart_def)
  obtain r w1 where b: "generateVideoClip_body sg ph w0 = (r, w1)"
    by (cases "generateVideoClip_body sg ph w0")
  note bf = body_facts[of sg ph w0, unfolded b fst_conv snd_conv]
  have g: "generateVideoClip sg ph w =
      (case r of Fulfilled url \<Rightarrow> (Fulfilled url, emit (Settled (Inr url)) w1)
               | Rejected e \<Rightarrow> (Rejected e, emit (Settled (Inl e)) w1)
               | Pending \<Rightarrow> (Pending, w1))"
    by (simp add: generateVideoClip_def w0_def[symmetric] b split: promise.splits)
  show ?thesis
    using bf w0 unfolding g
    by (cases r) (auto simp: emit_def durations_append)
qed

lemma transcribe_facts:
  "filter isInvocation (trace (snd (transcribeAndSegmentAudio audio ctx chars w)))
     = filter isInvocation (trace w)
   \<and> (\<forall>e. fst (transcribeAndSegmentAudio audio ctx chars w) = Rejected e \<longrightarrow> errMessage e \<noteq> [])"
  by (simp add: transcribeAndSegmentAudio_def new_GoogleGenAI_def fileToGenerativePart_def
        fileToBase64_def emit_def Let_def
        split: option.splits list.splits sum.splits)

lemma missing_credential_transcribe:
  "API_KEY w = None \<Longrightarrow>
   transcribeAndSegmentAudio audio ctx chars w
     = (Rejected (ErrorObj ''An API Key must be set when running in a browser''), w)"
  by (simp add: transcribeAndSegmentAudio_def new_GoogleGenAI_def)

lemma missing_credential_generate:
  "API_KEY w = None \<Longrightarrow>
   generateVideoClip sg ph w
     = (Rejected (ErrorObj
          ''API Key is not available. Ensure the API_KEY environment variable is set.''),
        emit (Settled (Inl (ErrorObj
          ''API Key is not available. Ensure the API_KEY environment variable is set.'')))
          (emit (Invoke sg ph) w))"
  by (simp add: generateVideoClip_def generateVideoClip_body_def emit_def)

section \<open>The backoff and the deadline\<close>

lemma backoff_le: "spec_backoff k \<le> 15000"
  by (cases k) simp_all

lemma backoff_ge: "5000 \<le> spec_backoff k"
  by (induction k) auto

lemma backoff_capped: "3 \<le> k \<Longrightarrow> spec_backoff k = 15000"
proof (induction k)
  case 0
  then show ?case by simp
next
  case (Suc k)
  show ?case
  proof (cases "k = 2")
    case True
    then show ?thesis by (simp add: numeral_2_eq_2)
  next
    case False
    with Suc have "spec_backoff k = 15000" by simp
    then show ?thesis by simp
  qed
qed

lemma backoff_first: "map spec_backoff [0..<5] = [5000, 7500, 11250, 15000, 15000]"
  by (simp add: upt_rec numeral_eq_Suc)

lemma sum_backoff: "3 \<le> n \<Longrightarrow> (\<Sum>k = 0..<n. \<lceil>spec_backoff k\<rceil>) = 23750 + 15000 * (int n - 3)"
proof (induction n)
  case 0
  then show ?case by simp
next
  case (Suc n)
  show ?case
  proof (cases "n = 2")
    case True
    then show ?thesis by (simp add: numeral_2_eq_2)
  next
    case False
    with Suc.prems have n: "3 \<le> n" by simp
    then have "spec_backoff n = 15000" by (rule backoff_capped)
    with Suc.IH[OF n] show ?thesis by simp
  qed
qed

lemma poll_reply:
  "pollReplies w = (lag, reply) # rest \<Longrightarrow>
   getVideosOperation (sleep wt w)
     = ((case reply of Inl e \<Rightarrow> Rejected e | Inr op' \<Rightarrow> Fulfilled op'),
        (emit GetVideosOperation (sleep wt w))
          \<lparr>now := now w + max 0 \<lceil>wt\<rceil> + int lag, pollReplies := rest\<rparr>)"
  by (simp add: getVideosOperation_def sleep_def emit_def Let_def split: sum.splits)

lemma checkTimes_0: "checkTimes t j lags ! 0 = t"
  by (cases lags) simp_all

lemma pollLoop_deadline:
  "wt = spec_backoff j \<Longrightarrow> \<not> op_done op \<Longrightarrow> m \<le> length (pollReplies w) \<Longrightarrow>
   (\<forall>r\<in>set (take m (pollReplies w)). \<exists>op'. snd r = Inr op' \<and> \<not> op_done op') \<Longrightarrow>
   deadline < checkTimes (now w) j (map fst (pollReplies w)) ! m \<Longrightarrow>
   \<exists>n\<le>m. fst (pollLoop deadline op wt w)
         = Rejected (ErrorObj ''Video generation timed out after 10 minutes.'')
     \<and> pollReplies (snd (pollLoop deadline op wt w)) = drop n (pollReplies w)
     \<and> filter isPolling (trace (snd (pollLoop deadline op wt w)))
         = filter isPolling (trace w) @ polling j n
     \<and> now (snd (pollLoop deadline op wt w)) = checkTimes (now w) j (map fst (pollReplies w)) ! n
     \<and> deadline < checkTimes (now w) j (map fst (pollReplies w)) ! n
     \<and> (\<forall>i<n. checkTimes (now w) j (map fst (pollReplies w)) ! i \<le> deadline)"
proof (induction deadline op wt w arbitrary: j m rule: pollLoop.induct)
  case (1 deadline operation wait w)
  note wt = \<open>wait = spec_backoff j\<close> and nd = \<open>\<not> op_done operation\<close>
  show ?case
  proof (cases "now w > deadline")
    case True
    with nd have "pollLoop deadline operation wait w
        = (Rejected (ErrorObj ''Video generation timed out after 10 minutes.''), w)"
      by (simp add: pollLoop.simps)
    with True show ?thesis
      by (intro exI[of _ 0]) (simp add: polling_0 checkTimes_0)
  next
    case nt: False
    with "1.prems"(5) obtain m' where m: "m = Suc m'"
      by (cases m) (simp_all add: checkTimes_0)
    with "1.prems"(3) obtain r rest where Cons: "pollReplies w = r # rest"
      by (cases "pollReplies w") simp_all
    obtain lag reply where r: "r = (lag, reply)" by (cases r)
    from "1.prems"(4) Cons r m obtain op' where reply: "reply = Inr op'" and nd': "\<not> op_done op'"
      by auto
    define w1 where "w1 = sleep wait w"
    define w2 where "w2 = (emit GetVideosOperation w1)
                            \<lparr>now := now w + max 0 \<lceil>wait\<rceil> + int lag, pollReplies := rest\<rparr>"
    have gv: "getVideosOperation w1 = (Fulfilled op', w2)"
      using poll_reply[of w lag reply rest wait] Cons r reply by (simp add: w1_def w2_def)
    have step: "pollLoop deadline operation wait w
                = pollLoop deadline op' (min (wait * 1.5) 15000) w2"
      using nd nt gv
      by (simp add: pollLoop.simps[of deadline operation wait w] w1_def Let_def)
    have next_wait: "min (wait * 1.5) 15000 = spec_backoff (Suc j)"
      by (simp add: wt)
    have rest: "pollReplies w2 = rest" by (simp add: w2_def)
    have tr2: "trace w2 = trace w @ [SetTimeout (spec_backoff j), GetVideosOperation]"
      by (simp add: w2_def w1_def sleep_def emit_def wt)
    have "0 \<le> \<lceil>spec_backoff j\<rceil>" using backoff_ge[of j] by simp
    then have now2: "now w2 = now w + \<lceil>spec_backoff j\<rceil> + int lag"
      by (simp add: w2_def wt)
    have ct: "checkTimes (now w) j (map fst (pollReplies w))
              = now w # checkTimes (now w2) (Suc j) (map fst rest)"
      by (simp add: Cons r now2)
    have len2: "m' \<le> length (pollReplies w2)"
      using "1.prems"(3) Cons m rest by simp
    have all2: "\<forall>r\<in>set (take m' (pollReplies w2)). \<exists>op'. snd r = Inr op' \<and> \<not> op_done op'"
      using "1.prems"(4) Cons rest m by simp
    have late2: "deadline < checkTimes (now w2) (Suc j) (map fst (pollReplies w2)) ! m'"
      using "1.prems"(5) by (simp add: ct m rest)
    from "1.IH"[OF nd nt w1_def refl gv[symmetric] refl next_wait nd' len2 all2 late2]
    obtain n where n: "n \<le> m'"
      "fst (pollLoop deadline op' (min (wait * 1.5) 15000) w2)
         = Rejected (ErrorObj ''Video generation timed out after 10 minutes.'')"
      "pollReplies (snd (pollLoop deadline op' (min (wait * 1.5) 15000) w2)) = drop n rest"
      "filter isPolling (trace (snd (pollLoop deadline op' (min (wait * 1.5) 15000) w2)))
         = filter isPolling (trace w2) @ polling (Suc j) n"
      "now (snd (pollLoop deadline op' (min (wait * 1.5) 15000) w2))
         = checkTimes (now w2) (Suc j) (map fst rest) ! n"
      "deadline < checkTimes (now w2) (Suc j) (map fst rest) ! n"
      "\<forall>i<n. checkTimes (now w2) (Suc j) (map fst rest) ! i \<le> deadline"
      unfolding rest by blast
    have early: "\<forall>i<Suc n. checkTimes (now w) j (map fst (pollReplies w)) ! i \<le> deadline"
    proof (intro allI impI)
      fix i assume "i < Suc n"
      then show "checkTimes (now w) j (map fst (pollReplies w)) ! i \<le> deadline"
        using nt n(7) by (cases i) (simp_all add: ct)
    qed
    show ?thesis
      using n early unfolding step
      by (intro exI[of _ "Suc n"]) (simp add: Cons r now2 tr2 polling_Suc m)
  qed
qed

lemma startAndPoll_deadline:
  assumes start: "startReplies w = Inr op0 # later" and nd: "\<not> op_done op0"
    and len: "m \<le> length (pollReplies w)"
    and polls: "\<forall>r\<in>set (take m (pollReplies w)). \<exists>op'. snd r = Inr op' \<and> \<not> op_done op'"
    and late: "600000 < checkTimes (now w) 0 (map fst (pollReplies w)) ! m - now w"
  shows "\<exists>n\<le>m. fst (startAndPoll sg k img w)
         = Rejected (ErrorObj ''Video generation timed out after 10 minutes.'')
     \<and> pollReplies (snd (startAndPoll sg k img w)) = drop n (pollReplies w)
     \<and> filter isPolling (trace (snd (startAndPoll sg k img w)))
         = filter isPolling (trace w) @ polling 0 n
     \<and> now (snd (startAndPoll sg k img w)) = checkTimes (now w) 0 (map fst (pollReplies w)) ! n
     \<and> 600000 < checkTimes (now w) 0 (map fst (pollReplies w)) ! n - now w
     \<and> (\<forall>i<n. checkTimes (now w) 0 (map fst (pollReplies w)) ! i - now w \<le> 600000)"
proof -
  define w2 where "w2 = (emit (GenerateVideos (Some k) (videoPrompt sg) img (clipDuration sg)) w)
                           \<lparr>startReplies := later\<rparr>"
  have w2: "pollReplies w2 = pollReplies w" "now w2 = now w"
    "filter isPolling (trace w2) = filter isPolling (trace w)"
    by (simp_all add: w2_def emit_def)
  from late have "now w + 600000 < checkTimes (now w2) 0 (map fst (pollReplies w2)) ! m"
    by (simp add: w2)
  from pollLoop_deadline[OF _ nd _ _ this, of 5000] len polls
  obtain n where n: "n \<le> m"
     "fst (pollLoop (now w + 600000) op0 5000 w2)
         = Rejected (ErrorObj ''Video generation timed out after 10 minutes.'')"
     "pollReplies (snd (pollLoop (now w + 600000) op0 5000 w2)) = drop n (pollReplies w)"
     "filter isPolling (trace (snd (pollLoop (now w + 600000) op0 5000 w2)))
         = filter isPolling (trace w) @ polling 0 n"
     "now (snd (pollLoop (now w + 600000) op0 5000 w2))
         = checkTimes (now w) 0 (map fst (pollReplies w)) ! n"
     "now w + 600000 < checkTimes (now w) 0 (map fst (pollReplies w)) ! n"
     "\<forall>i<n. checkTimes (now w) 0 (map fst (pollReplies w)) ! i \<le> now w + 600000"
    unfolding w2 by auto
  obtain w3 where pl: "pollLoop (now w + 600000) op0 5000 w2
      = (Rejected (ErrorObj ''Video generation timed out after 10 minutes.''), w3)"
    using n(2) by (cases "pollLoop (now w + 600000) op0 5000 w2") simp
  have sp: "startAndPoll sg k img w
        = (Rejected (ErrorObj ''Video generation timed out after 10 minutes.''), w3)"
    using start pl
    by (simp add: startAndPoll_def emit_def w2_def Let_def)
  have late': "600000 < checkTimes (now w) 0 (map fst (pollReplies w)) ! n - now w"
    using n(6) by linarith
  have early: "\<forall>i<n. checkTimes (now w) 0 (map fst (pollReplies w)) ! i - now w \<le> 600000"
  proof (intro allI impI)
    fix i assume "i < n"
    with n(7) have "checkTimes (now w) 0 (map fst (pollReplies w)) ! i \<le> now w + 600000"
      by blast
    then show "checkTimes (now w) 0 (map fst (pollReplies w)) ! i - now w \<le> 600000"
      by linarith
  qed
  from n(1,3,4,5) pl late' early show ?thesis
    unfolding sp by (intro exI[of _ n]) simp
qed

lemma generateVideoClip_deadline:
  assumes ready: "sendsStart w ph"
    and start: "startReplies w = Inr op0 # later" and nd: "\<not> op_done op0"
    and len: "m \<le> length (pollReplies w)"
    and polls: "\<forall>r\<in>set (take m (pollReplies w)). \<exists>op'. snd r = Inr op' \<and> \<not> op_done op'"
    and late: "600000 < checkTimes (now w) 0 (map fst (pollReplies w)) ! m - now w"
  shows "\<exists>n\<le>m. fst (generateVideoClip sg ph w)
         = Rejected (ErrorObj ''Video generation timed out after 10 minutes.'')
     \<and> pollReplies (snd (generateVideoClip sg ph w)) = drop n (pollReplies w)
     \<and> filter isPolling (trace (snd (generateVideoClip sg ph w)))
         = filter isPolling (trace w) @ polling 0 n
     \<and> now (snd (generateVideoClip sg ph w)) = checkTimes (now w) 0 (map fst (pollReplies w)) ! n
     \<and> 600000 < checkTimes (now w) 0 (map fst (pollReplies w)) ! n - now w
     \<and> (\<forall>i<n. checkTimes (now w) 0 (map fst (pollReplies w)) ! i - now w \<le> 600000)"
proof -
  from ready obtain k where key: "API_KEY w = Some k" "k \<noteq> ''''"
    by (auto simp: sendsStart_def split: option.splits)
  define w0 where "w0 = emit (Invoke sg ph) w"
  have "\<exists>img w1. generateVideoClip_body sg ph w0 = startAndPoll sg k img w1
          \<and> startReplies w1 = startReplies w \<and> pollReplies w1 = pollReplies w \<and> now w1 = now w
          \<and> filter isPolling (trace w1) = filter isPolling (trace w)"
  proof (cases ph)
    case None
    then show ?thesis
      using key by (intro exI[of _ None] exI[of _ w0])
        (simp add: generateVideoClip_body_def new_GoogleGenAI_def w0_def emit_def)
  next
    case (Some f)
    with ready obtain d where d: "dataUrl f = Some d"
      by (auto simp: sendsStart_def split: option.splits)
    show ?thesis
      using key Some d
      by (intro exI[of _ "Some (at_index (jsSplit CHR '','' d) 1, mimeType f)"]
                exI[of _ "emit (ReadFile f) w0"])
         (simp add: generateVideoClip_body_def new_GoogleGenAI_def fileToBase64_def w0_def
                    emit_def Let_def)
  qed
  then obtain img w1 where body: "generateVideoClip_body sg ph w0 = startAndPoll sg k img w1"
    and w1: "startReplies w1 = startReplies w" "pollReplies w1 = pollReplies w" "now w1 = now w"
      "filter isPolling (trace w1) = filter isPolling (trace w)"
    by blast
  from startAndPoll_deadline[of w1 op0 later m sg k img] start nd len polls late
  obtain n where n: "n \<le> m"
     "fst (startAndPoll sg k img w1)
         = Rejected (ErrorObj ''Video generation timed out after 10 minutes.'')"
     "pollReplies (snd (startAndPoll sg k img w1)) = drop n (pollReplies w)"
     "filter isPolling (trace (snd (startAndPoll sg k img w1)))
         = filter isPolling (trace w) @ polling 0 n"
     "now (snd (startAndPoll sg k img w1)) = checkTimes (now w) 0 (map fst (pollReplies w)) ! n"
     "600000 < checkTimes (now w) 0 (map fst (pollReplies w)) ! n - now w"
     "\<forall>i<n. checkTimes (now w) 0 (map fst (pollReplies w)) ! i - now w \<le> 600000"
    unfolding w1 by auto
  obtain w3 where sp: "startAndPoll sg k img w1
      = (Rejected (ErrorObj ''Video generation timed out after 10 minutes.''), w3)"
    using n(2) by (cases "startAndPoll sg k img w1") simp
  have gv: "generateVideoClip sg ph w
      = (Rejected (ErrorObj ''Video generation timed out after 10 minutes.''),
         emit (Settled (Inl (ErrorObj ''Video generation timed out after 10 minutes.''))) w3)"
    by (simp add: generateVideoClip_def w0_def[symmetric] body sp)
  from n(1,3,4,5,6,7) show ?thesis
    unfolding gv sp by (intro exI[of _ n]) (simp add: emit_def)
qed

lemma checkTimes_ge:
  "m \<le> length lags \<Longrightarrow>
   t + (\<Sum>k = j..<j + m. \<lceil>spec_backoff k\<rceil>) \<le> checkTimes t j lags ! m"
proof (induction lags arbitrary: t j m)
  case Nil
  then show ?case by simp
next
  case (Cons lag lags)
  show ?case
  proof (cases m)
    case 0
    then show ?thesis by simp
  next
    case (Suc m')
    with Cons.prems have "m' \<le> length lags" by simp
    from Cons.IH[OF this, of "t + \<lceil>spec_backoff j\<rceil> + int lag" "Suc j"]
    have le: "t + \<lceil>spec_backoff j\<rceil> + int lag + (\<Sum>k = Suc j..<Suc j + m'. \<lceil>spec_backoff k\<rceil>)
              \<le> checkTimes (t + \<lceil>spec_backoff j\<rceil> + int lag) (Suc j) lags ! m'" .
    have s: "(\<Sum>k = j..<j + m. \<lceil>spec_backoff k\<rceil>)
             = \<lceil>spec_backoff j\<rceil> + (\<Sum>k = Suc j..<Suc j + m'. \<lceil>spec_backoff k\<rceil>)"
      unfolding Suc by (subst sum.atLeast_Suc_lessThan) simp_all
    have ct: "checkTimes t j (lag # lags) ! m
              = checkTimes (t + \<lceil>spec_backoff j\<rceil> + int lag) (Suc j) lags ! m'"
      by (simp add: Suc)
    show ?thesis
      unfolding s ct using le by linarith
  qed
qed

lemma quick_polls_pass_deadline:
  assumes "42 \<le> length lags"
  shows "600000 < checkTimes t 0 lags ! 42 - t"
proof -
  have "(\<Sum>k = 0..<42. \<lceil>spec_backoff k\<rceil>) = 23750 + 15000 * (int 42 - 3)"
    by (rule sum_backoff) simp
  with checkTimes_ge[OF assms, of t 0] show ?thesis by simp
qed

section \<open>The clip duration\<close>


text \<open>
  A difference that is no finite number: an infinity is clamped like any other value, and
  \<^verbatim>\<open>NaN\<close> goes through \<^verbatim>\<open>Math.round\<close>, \<^verbatim>\<open>Math.min\<close> and \<^verbatim>\<open>Math.max\<close> unchanged.
\<close>

lemma clipDuration_not_finite:
  "(js_minus (endTime sg) (startTime sg) = PosInfinity \<longrightarrow> clipDuration sg = Num 8)
   \<and> (js_minus (endTime sg) (startTime sg) = NegInfinity \<longrightarrow> clipDuration sg = Num 5)
   \<and> (js_minus (endTime sg) (startTime sg) = NaN \<longrightarrow> clipDuration sg = NaN)"
  by (simp add: clipDuration_def)

lemma clipDuration_examples:
  "clipDuration (sample_segment\<lparr>startTime := Num 5, endTime := Num 3\<rparr>) = Num 5"
  "clipDuration (sample_segment\<lparr>startTime := Num 2, endTime := Num 2\<rparr>) = Num 5"
  "clipDuration (sample_segment\<lparr>startTime := Num 0, endTime := Num (11 / 2)\<rparr>) = Num 6"
  "clipDuration (sample_segment\<lparr>startTime := Num 0, endTime := Num (149 / 20)\<rparr>) = Num 7"
  "clipDuration (sample_segment\<lparr>startTime := Num 10, endTime := Num 260\<rparr>) = Num 8"
  "clipDuration (sample_segment\<lparr>startTime := NegInfinity, endTime := Num 3\<rparr>) = Num 8"
  "clipDuration (sample_segment\<lparr>startTime := NaN, endTime := Num 3\<rparr>) = NaN"
  by (simp_all add: clipDuration_def to_double_def scale_down.simps scale_up.simps rne_def
        sample_segment_def Let_def)

section \<open>The loop over the segments\<close>

lemma clipLoop_run:
  "clipLoop n rest i s w = (r, s', w') \<Longrightarrow>
   \<exists>urls. length urls \<le> length rest
     \<and> generatedClips s' = generatedClips s @ map2 clipOf rest urls
     \<and> filter isInvocation (trace w')
         = filter isInvocation (trace w)
           @ concat (map2 (\<lambda>sg u. invocation (characters s) sg (Inr u)) rest urls)
           @ (case r of
                Fulfilled u \<Rightarrow> []
              | Rejected e \<Rightarrow> invocation (characters s) (rest ! length urls) (Inl e)
              | Pending \<Rightarrow> [Invoke (rest ! length urls) (photoOf (characters s) (rest ! length urls))])
     \<and> (case r of
           Fulfilled u \<Rightarrow> length urls = length rest
         | Rejected e \<Rightarrow> length urls < length rest \<and> errMessage e \<noteq> []
         | Pending \<Rightarrow> length urls < length rest)
     \<and> characters s' = characters s \<and> status s' = status s \<and> errorMsg s' = errorMsg s"
proof (induction rest arbitrary: i s w)
  case Nil
  then show ?case by (intro exI[of _ "[]"]) auto
next
  case (Cons sg rest)
  define s1 where "s1 = s\<lparr>progress := (progress s)
                 \<lparr>current := real i,
                  message := ''Generating clip '' @ showNat (i + 1) @ ''/'' @ showNat n @ '': ''
                             @ topicSummary sg\<rparr>\<rparr>"
  define photo where "photo = photoOf (characters s) sg"
  obtain g w1 where g: "generateVideoClip sg photo w = (g, w1)"
    by (cases "generateVideoClip sg photo w")
  have s1: "characters s1 = characters s" "status s1 = status s" "errorMsg s1 = errorMsg s"
    "generatedClips s1 = generatedClips s"
    by (simp_all add: s1_def)
  note gf = generateVideoClip_facts[of sg photo w, unfolded g fst_conv snd_conv]
  then have inv1: "filter isInvocation (trace w1) = filter isInvocation (trace w) @ Invoke sg photo #
           (case g of Fulfilled url \<Rightarrow> [Settled (Inr url)] | Rejected e \<Rightarrow> [Settled (Inl e)] | Pending \<Rightarrow> [])"
    and msg: "\<forall>e. g = Rejected e \<longrightarrow> errMessage e \<noteq> []"
    by blast+
  show ?case
  proof (cases g)
    case Pending
    with Cons.prems g have "r = Pending" "s' = s1" "w' = w1"
      by (simp_all add: s1_def photo_def Let_def)
    then show ?thesis using inv1 Pending s1
      by (intro exI[of _ "[]"]) (simp add: photo_def)
  next
    case (Rejected e)
    with Cons.prems g have "r = Rejected e" "s' = s1" "w' = w1"
      by (simp_all add: s1_def photo_def Let_def)
    then show ?thesis using inv1 msg Rejected s1
      by (intro exI[of _ "[]"]) (simp add: photo_def invocation_def)
  next
    case (Fulfilled url)
    define s2 where "s2 = s1\<lparr>generatedClips := generatedClips s1 @ [\<lparr>segment = sg, blobUrl = url\<rparr>]\<rparr>"
    have s2: "characters s2 = characters s" "status s2 = status s" "errorMsg s2 = errorMsg s"
      "generatedClips s2 = generatedClips s @ [clipOf sg url]"
      by (simp_all add: s2_def s1 clipOf_def)
    from Cons.prems g Fulfilled have "clipLoop n rest (Suc i) s2 w1 = (r, s', w')"
      by (simp add: s1_def s2_def photo_def Let_def)
    from Cons.IH[OF this] obtain urls where u:
      "length urls \<le> length rest"
      "generatedClips s' = generatedClips s2 @ map2 clipOf rest urls"
      "filter isInvocation (trace w')
         = filter isInvocation (trace w1)
           @ concat (map2 (\<lambda>sg u. invocation (characters s2) sg (Inr u)) rest urls)
           @ (case r of
                Fulfilled u \<Rightarrow> []
              | Rejected e \<Rightarrow> invocation (characters s2) (rest ! length urls) (Inl e)
              | Pending \<Rightarrow> [Invoke (rest ! length urls) (photoOf (characters s2) (rest ! length urls))])"
      "case r of
           Fulfilled u \<Rightarrow> length urls = length rest
         | Rejected e \<Rightarrow> length urls < length rest \<and> errMessage e \<noteq> []
         | Pending \<Rightarrow> length urls < length rest"
      "characters s' = characters s2" "status s' = status s2" "errorMsg s' = errorMsg s2"
      by blast
    show ?thesis
      using u s2 inv1 Fulfilled
      by (intro exI[of _ "url # urls"]) (auto simp: photo_def invocation_def split: promise.splits)
  qed
qed

lemma settled_calls:
  "length urls \<le> length rest \<Longrightarrow>
   settled (concat (map2 (\<lambda>sg u. invocation chars sg (Inr u)) rest urls)) = map Inr urls"
proof (induction rest arbitrary: urls)
  case Nil
  then show ?case by simp
next
  case (Cons sg rest)
  then show ?case by (cases urls) (simp_all add: invocation_def)
qed

lemma not_all_fulfilled: "map Inr urls \<noteq> map Inr urls' @ [Inl e]"
proof
  assume "map Inr urls = map Inr urls' @ [Inl e]"
  then have "Inl e \<in> set (map Inr urls)" by simp
  then show False by auto
qed

lemma generateStory_run:
  assumes audio: "audioFile s = Some audio"
    and segs: "fst (transcribeAndSegmentAudio audio (storyContext s) (characters s) w) = Fulfilled segments"
    and run: "generateStory s w = (r, s', w')"
  shows "\<exists>urls. length urls \<le> length segments
     \<and> generatedClips s' = map2 clipOf segments urls
     \<and> ((r = Fulfilled () \<and> length urls = length segments \<and> status s' = S_complete
           \<and> filter isInvocation (trace w') = filter isInvocation (trace w)
                @ concat (map2 (\<lambda>sg u. invocation (characters s) sg (Inr u)) segments urls)
           \<and> settled (trace w') = settled (trace w) @ map Inr urls)
        \<or> (\<exists>e. r = Fulfilled () \<and> length urls < length segments \<and> status s' = S_error
               \<and> errorMsg s' = errMessage e \<and> errMessage e \<noteq> []
               \<and> settled (trace w') = settled (trace w) @ map Inr urls @ [Inl e])
        \<or> (r = Pending \<and> length urls < length segments
               \<and> settled (trace w') = settled (trace w) @ map Inr urls))"
proof -
  define s1 where "s1 = s\<lparr>status := S_processing, generatedClips := [], errorMsg := ''''\<rparr>"
  obtain w1 where t: "transcribeAndSegmentAudio audio (storyContext s) (characters s) w = (Fulfilled segments, w1)"
    using segs by (cases "transcribeAndSegmentAudio audio (storyContext s) (characters s) w") simp
  have w1: "filter isInvocation (trace w1) = filter isInvocation (trace w)"
    using transcribe_facts[of audio "storyContext s" "characters s" w] by (simp add: t)
  define s2 where "s2 = s1\<lparr>progress := \<lparr>stage = ''Generating clips'', total = real (length segments),
                                             current = 0, message = ''Starting video generation...''\<rparr>\<rparr>"
  have s2: "characters s2 = characters s" "generatedClips s2 = []"
    by (simp_all add: s2_def s1_def)
  obtain c s3 w3 where loop: "clipLoop (length segments) segments 0 s2 w1 = (c, s3, w3)"
    by (cases "clipLoop (length segments) segments 0 s2 w1")
  from clipLoop_run[OF loop] obtain urls where u:
    "length urls \<le> length segments"
    "generatedClips s3 = generatedClips s2 @ map2 clipOf segments urls"
    "filter isInvocation (trace w3)
         = filter isInvocation (trace w1)
           @ concat (map2 (\<lambda>sg u. invocation (characters s2) sg (Inr u)) segments urls)
           @ (case c of
                Fulfilled u \<Rightarrow> []
              | Rejected e \<Rightarrow> invocation (characters s2) (segments ! length urls) (Inl e)
              | Pending \<Rightarrow> [Invoke (segments ! length urls) (photoOf (characters s2) (segments ! length urls))])"
    "case c of
           Fulfilled u \<Rightarrow> length urls = length segments
         | Rejected e \<Rightarrow> length urls < length segments \<and> errMessage e \<noteq> []
         | Pending \<Rightarrow> length urls < length segments"
    by blast
  have "settled (filter isInvocation (trace w3))
        = settled (filter isInvocation (trace w1)) @ map Inr urls
          @ (case c of Rejected e \<Rightarrow> [Inl e] | _ \<Rightarrow> [])"
    unfolding u(3) using settled_calls[OF u(1), of "characters s2"]
    by (simp add: settled_append invocation_def split: promise.splits)
  moreover have "settled (trace w1) = settled (trace w)"
    using arg_cong[OF w1, of settled] by (simp add: settled_filter)
  ultimately have st: "settled (trace w3) = settled (trace w) @ map Inr urls
          @ (case c of Rejected e \<Rightarrow> [Inl e] | _ \<Rightarrow> [])"
    by (simp add: settled_filter)
  have gs: "generateStory s w =
      (case c of
         Pending \<Rightarrow> (Pending, s3, w3)
       | Rejected e \<Rightarrow> (Fulfilled (), onFailure e s3, w3)
       | Fulfilled u \<Rightarrow>
           (Fulfilled (),
            s3\<lparr>progress := \<lparr>stage = ''Finished'', total = real (length segments),
                            current = real (length segments),
                            message = ''All clips generated!''\<rparr>,
               status := S_complete\<rparr>, w3))"
  proof -
    have f: "storyContext s1 = storyContext s" "characters s1 = characters s"
      by (simp_all add: s1_def)
    show ?thesis
      using audio t loop
      by (simp add: generateStory_def s1_def[symmetric] s2_def[symmetric] f Let_def
               split: promise.splits)
  qed
  show ?thesis
  proof (cases c)
    case (Fulfilled x)
    with run gs u st s2 have "r = Fulfilled ()" "generatedClips s' = map2 clipOf segments urls"
      "status s' = S_complete" "w' = w3" "length urls = length segments"
      by auto
    then show ?thesis using u st s2 w1 Fulfilled
      by (intro exI[of _ urls]) simp
  next
    case (Rejected e)
    with run gs u st s2 have "r = Fulfilled ()" "generatedClips s' = map2 clipOf segments urls"
      "status s' = S_error" "errorMsg s' = errMessage e" "w' = w3" "length urls < length segments"
      "errMessage e \<noteq> []"
      by (auto simp: onFailure_def Let_def)
    then show ?thesis using u st Rejected
      by (intro exI[of _ urls]) auto
  next
    case Pending
    with run gs u st s2 have "r = Pending" "generatedClips s' = map2 clipOf segments urls"
      "w' = w3" "length urls < length segments"
      by auto
    then show ?thesis using u st Pending
      by (intro exI[of _ urls]) auto
  qed
qed

section \<open>Sample runs\<close>

lemmas run_defs = generateStory_def transcribeAndSegmentAudio_def new_GoogleGenAI_def
  fileToGenerativePart_def
  fileToBase64_def generateVideoClip_def generateVideoClip_body_def startAndPoll_def
  pollLoop.simps sleep_def getVideosOperation_def download_def createObjectURL_def emit_def photoOf_def onFailure_def
  showNat.simps digit_def at_index_def
  story_app_def sample_app_def sample_world_def sample_audio_def sample_photo_def hero_def
  sample_segment_def second_segment_def op_finished_def op_running_def Let_def

lemma one_clip_run:
  "fst (generateStory story_app one_clip_world) = Fulfilled ()
   \<and> status (fst (snd (generateStory story_app one_clip_world))) = S_complete
   \<and> generatedClips (fst (snd (generateStory story_app one_clip_world)))
       = [\<lparr>segment = sample_segment, blobUrl = ''blob:0''\<rparr>]
   \<and> objectUrls (snd (snd (generateStory story_app one_clip_world))) = [''blob:0'']"
  by (simp add: run_defs one_clip_world_def)

lemma empty_story_run:
  "status (fst (snd (generateStory story_app empty_story_world))) = S_complete
   \<and> progress (fst (snd (generateStory story_app empty_story_world)))
       = \<lparr>stage = ''Finished'', total = 0, current = 0, message = ''All clips generated!''\<rparr>"
  by (simp add: run_defs empty_story_world_def)

lemma two_clip_run:
  "fst (transcribeAndSegmentAudio sample_audio (storyContext story_app) (characters story_app) two_clip_world)
     = Fulfilled [sample_segment, second_segment]
   \<and> fst (generateStory story_app two_clip_world) = Fulfilled ()
   \<and> settled (trace (snd (snd (generateStory story_app two_clip_world)))) = [Inr ''blob:0'', Inr ''blob:1'']
   \<and> settled (trace two_clip_world) = []"
  by (simp add: run_defs two_clip_world_def)

lemma failing_segmenter_run:
  "fst (transcribeAndSegmentAudio sample_audio (storyContext story_app) (characters story_app)
          failing_segmenter_world)
     = Rejected (ErrorObj ''Failed to analyze audio: quota exceeded'')"
  by (simp add: run_defs failing_segmenter_world_def)

lemma failing_second_run:
  "fst (transcribeAndSegmentAudio sample_audio (storyContext story_app) (characters story_app)
          failing_second_world)
     = Fulfilled [sample_segment, second_segment, sample_segment]
   \<and> settled (trace (snd (snd (generateStory story_app failing_second_world))))
       = [Inr ''blob:0'', Inl (ErrorObj ''Failed to start video generation: unavailable'')]
   \<and> settled (trace failing_second_world) = []"
  by (simp add: run_defs failing_second_world_def)

text \<open>Runs of \<^verbatim>\<open>generateVideoClip\<close> alone.\<close>

lemmas clip_defs = generateVideoClip_def generateVideoClip_body_def new_GoogleGenAI_def
  startAndPoll_def pollLoop.simps sleep_def getVideosOperation_def download_def
  createObjectURL_def emit_def clipDuration_def to_double_def scale_down.simps scale_up.simps
  rne_def sample_segment_def sample_world_def op_running_def op_finished_def Let_def

lemma replicate_20: "replicate 20 x = [x,x,x,x,x,x,x,x,x,x,x,x,x,x,x,x,x,x,x,x]"
  by (simp add: numeral_eq_Suc)

lemma replicate_21: "replicate 21 x = [x,x,x,x,x,x,x,x,x,x,x,x,x,x,x,x,x,x,x,x,x]"
  by (simp add: numeral_eq_Suc)

lemma replicate_41: "replicate 41 x = replicate 20 x @ replicate 21 x"
  by (simp add: replicate_add[symmetric])

lemma replicate_49: "replicate 49 x = replicate 20 x @ replicate 20 x @ replicate 9 x"
  by (simp add: replicate_add[symmetric])

text \<open>Five polls, the last of which finds the job done.\<close>

lemma five_poll_run:
  "fst (generateVideoClip sample_segment None five_poll_world) = Fulfilled ''blob:0''
   \<and> filter isPolling (trace (snd (generateVideoClip sample_segment None five_poll_world)))
     = [SetTimeout 5000, GetVideosOperation, SetTimeout 7500, GetVideosOperation,
        SetTimeout 11250, GetVideosOperation, SetTimeout 15000, GetVideosOperation,
        SetTimeout 15000, GetVideosOperation]
   \<and> pollReplies (snd (generateVideoClip sample_segment None five_poll_world)) = []"
  by (simp add: clip_defs five_poll_world_def showNat.simps digit_def)

text \<open>
  A job that never finishes, its first poll answered after seven seconds and the others at
  once: the forty-second deadline check, 600750 ms after the start, is the first one past the
  ten minutes; forty-one polls have been made and nine replies are left unasked for.
\<close>

lemma slow_first_run:
  "fst (generateVideoClip sample_segment None slow_first_world)
     = Rejected (ErrorObj ''Video generation timed out after 10 minutes.'')
   \<and> now (snd (generateVideoClip sample_segment None slow_first_world)) = 600750
   \<and> pollReplies (snd (generateVideoClip sample_segment None slow_first_world))
     = replicate 9 (0, Inr op_running)
   \<and> length (filter isPolling
        (trace (snd (generateVideoClip sample_segment None slow_first_world)))) = 82"
  by (simp add: clip_defs slow_first_world_def replicate_49 replicate_20)

lemma slow_first_checks:
  "checkTimes (now slow_first_world) 0 (map fst (pollReplies slow_first_world)) ! 41 = 600750
   \<and> checkTimes (now slow_first_world) 0 (map fst (pollReplies slow_first_world)) ! 40 = 585750"
  by (simp add: slow_first_world_def sample_world_def replicate_49 replicate_20 numeral_eq_Suc)

text \<open>
  Forty-one polls answered at once and a forty-second that is never answered: the last
  deadline check was made at 593750 ms, the call is pending at 608750 ms and nothing settles.
\<close>

lemma hung_run:
  "fst (generateVideoClip sample_segment None hung_world) = Pending
   \<and> now (snd (generateVideoClip sample_segment None hung_world)) = 608750
   \<and> length (filter isPolling
        (trace (snd (generateVideoClip sample_segment None hung_world)))) = 84
   \<and> settled (trace (snd (generateVideoClip sample_segment None hung_world))) = []"
  by (simp add: clip_defs hung_world_def replicate_41 replicate_20 replicate_21)

text \<open>
  The deadline is looked at before each wait and nowhere else: the poll that follows a wait
  begun in time is still made, and a job it finds done is taken, here 608750 ms after the
  start.
\<close>

lemma late_finish:
  "fst (generateVideoClip sample_segment None late_world) = Fulfilled ''blob:0''
   \<and> now (snd (generateVideoClip sample_segment None late_world)) = 608750"
  by (simp add: clip_defs late_world_def showNat.simps digit_def replicate_41 replicate_20
        replicate_21)


section \<open>The claims\<close>

text \<open>
  C1: a run of \<^verbatim>\<open>generateStory\<close> with an audio file, in which the segmenter returns \<open>N\<close>
  segments and every invocation of the generator is fulfilled. The generator is invoked
  exactly \<open>N\<close> times, once for each segment in the order of the list, with the photo of the
  segment's character, and each invocation settles before the next one starts: the
  invocation events of the run are call 1, result 1, call 2, result 2, ..., call \<open>N\<close>,
  result \<open>N\<close>. The clip list then has length \<open>N\<close>, its \<open>i\<close>-th clip holding the \<open>i\<close>-th segment
  and the \<open>i\<close>-th URL, and the state is complete. (It holds for an empty list as well.)
\<close>

theorem generateStory_invokes_each_segment:
  assumes audio: "audioFile s = Some audio"
    and segs: "fst (transcribeAndSegmentAudio audio (storyContext s) (characters s) w) = Fulfilled segments"
    and run: "generateStory s w = (Fulfilled (), s', w')"
    and ok: "settled (trace w') = settled (trace w) @ map Inr urls"
  shows "length urls = length segments
     \<and> filter isInvocation (trace w')
         = filter isInvocation (trace w)
           @ concat (map2 (\<lambda>sg u. [Invoke sg (photoOf (characters s) sg), Settled (Inr u)]) segments urls)
     \<and> generatedClips s' = map2 (\<lambda>sg u. \<lparr>segment = sg, blobUrl = u\<rparr>) segments urls
     \<and> length (generatedClips s') = length segments
     \<and> map segment (generatedClips s') = segments
     \<and> status s' = S_complete"
proof -
  from generateStory_run[OF audio segs run] obtain urls0 where u:
    "length urls0 \<le> length segments" "generatedClips s' = map2 clipOf segments urls0"
    "(length urls0 = length segments \<and> status s' = S_complete
           \<and> filter isInvocation (trace w') = filter isInvocation (trace w)
                @ concat (map2 (\<lambda>sg u. invocation (characters s) sg (Inr u)) segments urls0)
           \<and> settled (trace w') = settled (trace w) @ map Inr urls0)
        \<or> (\<exists>e. settled (trace w') = settled (trace w) @ map Inr urls0 @ [Inl e])"
    by blast
  have "\<not> (\<exists>e. settled (trace w') = settled (trace w) @ map Inr urls0 @ [Inl e])"
  proof
    assume "\<exists>e. settled (trace w') = settled (trace w) @ map Inr urls0 @ [Inl e]"
    then obtain e :: thrown where "settled (trace w') = settled (trace w) @ map Inr urls0 @ [Inl e]"
      by blast
    with ok have "map Inr urls = map Inr urls0 @ [Inl e]" by simp
    then show False by (rule not_all_fulfilled[THEN notE])
  qed
  with u(3) have full: "length urls0 = length segments \<and> status s' = S_complete
           \<and> filter isInvocation (trace w') = filter isInvocation (trace w)
                @ concat (map2 (\<lambda>sg u. invocation (characters s) sg (Inr u)) segments urls0)
           \<and> settled (trace w') = settled (trace w) @ map Inr urls0"
    by blast
  with ok have "map Inr urls = (map Inr urls0 :: (thrown + string) list)" by simp
  then have same: "urls = urls0" by (simp add: inj_map_eq_map)
  have "map segment (map2 clipOf segments urls0) = segments"
    using full by (simp add: clipOf_def map_fst_zip[unfolded comp_def] map2_map_map[symmetric] zip_map_fst_snd o_def split_def)
  with full u(2) same show ?thesis
    by (simp add: clipOf_def[abs_def] invocation_def[abs_def])
qed

theorem generateStory_invokes_each_segment_witness:
  "audioFile story_app = Some sample_audio
   \<and> fst (generateStory story_app two_clip_world) = Fulfilled ()
   \<and> settled (trace (snd (snd (generateStory story_app two_clip_world)))) = map Inr [''blob:0'', ''blob:1'']
   \<and> filter isInvocation (trace (snd (snd (generateStory story_app two_clip_world))))
       = [Invoke sample_segment None, Settled (Inr ''blob:0''),
          Invoke second_segment (Some sample_photo), Settled (Inr ''blob:1'')]
   \<and> generatedClips (fst (snd (generateStory story_app two_clip_world)))
       = [\<lparr>segment = sample_segment, blobUrl = ''blob:0''\<rparr>,
          \<lparr>segment = second_segment, blobUrl = ''blob:1''\<rparr>]
   \<and> status (fst (snd (generateStory story_app two_clip_world))) = S_complete"
proof -
  have a: "audioFile story_app = Some sample_audio" by (simp add: story_app_def)
  have r: "generateStory story_app two_clip_world
           = (Fulfilled (), fst (snd (generateStory story_app two_clip_world)),
              snd (snd (generateStory story_app two_clip_world)))"
    using two_clip_run by (cases "generateStory story_app two_clip_world") simp
  have s: "settled (trace (snd (snd (generateStory story_app two_clip_world))))
           = settled (trace two_clip_world) @ map Inr [''blob:0'', ''blob:1'']"
    using two_clip_run by simp
  have p: "photoOf (characters story_app) sample_segment = None"
    "photoOf (characters story_app) second_segment = Some sample_photo"
    "trace two_clip_world = []"
    by (simp_all add: photoOf_def story_app_def hero_def sample_segment_def second_segment_def
          two_clip_world_def sample_world_def)
  show ?thesis
    using generateStory_invokes_each_segment[OF a two_clip_run[THEN conjunct1] r s] a two_clip_run p
    by simp
qed

text \<open>
  C2: a run of \<^verbatim>\<open>generateStory\<close> with an audio file. If the segmenter fails, no clip is
  kept; if the first \<open>i - 1\<close> invocations of the generator are fulfilled and the \<open>i\<close>-th
  fails, the clip list is exactly the \<open>i - 1\<close> clips of the first \<open>i - 1\<close> segments, in order.
  In both cases the state is the error state and the error message is the message of the
  failure, which is not empty.
\<close>

theorem generateStory_failure:
  assumes audio: "audioFile s = Some audio"
    and run: "generateStory s w = (r, s', w')"
  shows "(fst (transcribeAndSegmentAudio audio (storyContext s) (characters s) w) = Rejected e \<longrightarrow>
            generatedClips s' = [] \<and> status s' = S_error
            \<and> errorMsg s' = errMessage e \<and> errorMsg s' \<noteq> '''')
       \<and> (fst (transcribeAndSegmentAudio audio (storyContext s) (characters s) w) = Fulfilled segments
            \<and> settled (trace w') = settled (trace w) @ map Inr urls @ [Inl e'] \<longrightarrow>
            length urls < length segments
            \<and> generatedClips s'
                = map2 (\<lambda>sg u. \<lparr>segment = sg, blobUrl = u\<rparr>) (take (length urls) segments) urls
            \<and> length (generatedClips s') = length urls
            \<and> status s' = S_error
            \<and> errorMsg s' = errMessage e' \<and> errorMsg s' \<noteq> '''')"
proof (rule conjI; rule impI)
  assume rej: "fst (transcribeAndSegmentAudio audio (storyContext s) (characters s) w) = Rejected e"
  then obtain w1 where t: "transcribeAndSegmentAudio audio (storyContext s) (characters s) w = (Rejected e, w1)"
    by (cases "transcribeAndSegmentAudio audio (storyContext s) (characters s) w") simp
  have "errMessage e \<noteq> []"
    using transcribe_facts[of audio "storyContext s" "characters s" w] rej by simp
  moreover have "s' = onFailure e (s\<lparr>status := S_processing, generatedClips := [], errorMsg := ''''\<rparr>)"
    using run audio t by (simp add: generateStory_def Let_def)
  ultimately show "generatedClips s' = [] \<and> status s' = S_error
            \<and> errorMsg s' = errMessage e \<and> errorMsg s' \<noteq> ''''"
    by (simp add: onFailure_def Let_def)
next
  assume h: "fst (transcribeAndSegmentAudio audio (storyContext s) (characters s) w) = Fulfilled segments
            \<and> settled (trace w') = settled (trace w) @ map Inr urls @ [Inl e']"
  from generateStory_run[OF audio h[THEN conjunct1] run] obtain urls0 where u:
    "length urls0 \<le> length segments" "generatedClips s' = map2 clipOf segments urls0"
    "settled (trace w') = settled (trace w) @ map Inr urls0
     \<or> (\<exists>e. length urls0 < length segments \<and> status s' = S_error
               \<and> errorMsg s' = errMessage e \<and> errMessage e \<noteq> []
               \<and> settled (trace w') = settled (trace w) @ map Inr urls0 @ [Inl e])"
    by blast
  have "settled (trace w') \<noteq> settled (trace w) @ map Inr urls0"
  proof
    assume "settled (trace w') = settled (trace w) @ map Inr urls0"
    with h have "map Inr urls0 = map Inr urls @ [Inl e']" by simp
    then show False by (rule not_all_fulfilled[THEN notE])
  qed
  with u(3) obtain e0 where e0: "length urls0 < length segments" "status s' = S_error"
     "errorMsg s' = errMessage e0" "errMessage e0 \<noteq> []"
     "settled (trace w') = settled (trace w) @ map Inr urls0 @ [Inl e0]"
    by blast
  with h have "map Inr urls0 @ [Inl e0] = (map Inr urls @ [Inl e'] :: (thrown + string) list)"
    by simp
  then have same: "urls0 = urls" "e0 = e'"
    by (simp_all add: inj_map_eq_map)
  have "zip (take (length urls) segments) urls = take (length urls) (zip segments urls)"
    by (simp add: take_zip)
  then have "map2 clipOf segments urls = map2 clipOf (take (length urls) segments) urls"
    by simp
  with e0 u(2) same
  show "length urls < length segments
            \<and> generatedClips s'
                = map2 (\<lambda>sg u. \<lparr>segment = sg, blobUrl = u\<rparr>) (take (length urls) segments) urls
            \<and> length (generatedClips s') = length urls
            \<and> status s' = S_error
            \<and> errorMsg s' = errMessage e' \<and> errorMsg s' \<noteq> ''''"
    by (simp add: clipOf_def[abs_def])
qed

theorem generateStory_failure_witness:
  "audioFile story_app = Some sample_audio
   \<and> fst (transcribeAndSegmentAudio sample_audio (storyContext story_app) (characters story_app)
            failing_segmenter_world)
       = Rejected (ErrorObj ''Failed to analyze audio: quota exceeded'')
   \<and> generatedClips (fst (snd (generateStory story_app failing_segmenter_world))) = []
   \<and> status (fst (snd (generateStory story_app failing_segmenter_world))) = S_error
   \<and> errorMsg (fst (snd (generateStory story_app failing_segmenter_world)))
       = ''Failed to analyze audio: quota exceeded''
   \<and> settled (trace (snd (snd (generateStory story_app failing_second_world))))
       = [Inr ''blob:0'', Inl (ErrorObj ''Failed to start video generation: unavailable'')]
   \<and> generatedClips (fst (snd (generateStory story_app failing_second_world)))
       = [\<lparr>segment = sample_segment, blobUrl = ''blob:0''\<rparr>]
   \<and> status (fst (snd (generateStory story_app failing_second_world))) = S_error
   \<and> errorMsg (fst (snd (generateStory story_app failing_second_world)))
       = ''Failed to start video generation: unavailable''"
proof -
  have a: "audioFile story_app = Some sample_audio" by (simp add: story_app_def)
  have r1: "generateStory story_app failing_segmenter_world
           = (fst (generateStory story_app failing_segmenter_world),
              fst (snd (generateStory story_app failing_segmenter_world)),
              snd (snd (generateStory story_app failing_segmenter_world)))"
    by simp
  have r2: "generateStory story_app failing_second_world
           = (fst (generateStory story_app failing_second_world),
              fst (snd (generateStory story_app failing_second_world)),
              snd (snd (generateStory story_app failing_second_world)))"
    by simp
  have s2: "settled (trace (snd (snd (generateStory story_app failing_second_world))))
            = settled (trace failing_second_world) @ map Inr [''blob:0'']
              @ [Inl (ErrorObj ''Failed to start video generation: unavailable'')]"
    using failing_second_run by simp
  show ?thesis
    using generateStory_failure[OF a r1, where e = "ErrorObj ''Failed to analyze audio: quota exceeded''"]
          generateStory_failure[OF a r2, where segments = "[sample_segment, second_segment, sample_segment]"
             and urls = "[''blob:0'']" and e' = "ErrorObj ''Failed to start video generation: unavailable''"]
          a failing_segmenter_run failing_second_run s2
    by simp
qed

text \<open>
  C3: in every execution of \<^verbatim>\<open>generateVideoClip\<close>, however it ends, the timers and the polls
  it adds to the trace alternate, a timer before each poll, and the timer before the
  \<open>(k+1)\<close>-th poll of the call is set for the \<open>k\<close>-th wait of the backoff; each round takes one
  reply of the capability. The backoff starts with 5000, 7500, 11250, 15000, 15000; no wait
  exceeds 15000 ms, and from the fourth on every wait is exactly 15000 ms.
\<close>

theorem backoff_sequence:
  "(\<exists>n. filter isPolling (trace (snd (generateVideoClip sg ph w)))
          = filter isPolling (trace w)
            @ concat (map (\<lambda>k. [SetTimeout (spec_backoff k), GetVideosOperation]) [0..<n])
        \<and> pollReplies (snd (generateVideoClip sg ph w)) = drop n (pollReplies w))
   \<and> map spec_backoff [0..<5] = [5000, 7500, 11250, 15000, 15000]
   \<and> spec_backoff k \<le> 15000
   \<and> (3 \<le> k \<longrightarrow> spec_backoff k = 15000)"
  using generateVideoClip_facts[of sg ph w] backoff_first backoff_le[of k] backoff_capped[of k]
  by (simp add: polling_def)

theorem backoff_sequence_witness:
  "filter isPolling (trace (snd (generateVideoClip sample_segment None five_poll_world)))
     = [SetTimeout 5000, GetVideosOperation, SetTimeout 7500, GetVideosOperation,
        SetTimeout 11250, GetVideosOperation, SetTimeout 15000, GetVideosOperation,
        SetTimeout 15000, GetVideosOperation]
   \<and> pollReplies (snd (generateVideoClip sample_segment None five_poll_world)) = []
   \<and> (3::nat) \<le> 4 \<and> spec_backoff 4 = 15000"
  using backoff_sequence[of sample_segment None five_poll_world 4] five_poll_run
  by simp

text \<open>
  C4, as the code has it. The deadline is ten minutes after the start request resolved (the
  clock of the model stands still until then) and is looked at once per round, before the
  wait, when the poll before it has been answered. Let the call come to its start request,
  the start and the first \<open>m\<close> polls be answered with a job that is not done, and the check
  after the \<open>m\<close>-th of these polls fall more than 600000 ms after the start. Then the call is
  rejected with the time-out error, at the first check that falls more than 600000 ms after
  the start: every check before it was within the ten minutes; the clock at the rejection is
  the clock of that check; the timers and polls of the call are those of the rounds before
  it, and the replies after them are left unasked for, so no poll follows the error.
\<close>

theorem generation_times_out:
  assumes "sendsStart w ph"
    and "startReplies w = Inr op0 # later" and "\<not> op_done op0"
    and "m \<le> length (pollReplies w)"
    and "\<forall>r\<in>set (take m (pollReplies w)). \<exists>op'. snd r = Inr op' \<and> \<not> op_done op'"
    and "600000 < checkTimes (now w) 0 (map fst (pollReplies w)) ! m - now w"
  shows "\<exists>n\<le>m. fst (generateVideoClip sg ph w)
         = Rejected (ErrorObj ''Video generation timed out after 10 minutes.'')
     \<and> now (snd (generateVideoClip sg ph w)) = checkTimes (now w) 0 (map fst (pollReplies w)) ! n
     \<and> 600000 < checkTimes (now w) 0 (map fst (pollReplies w)) ! n - now w
     \<and> (\<forall>i<n. checkTimes (now w) 0 (map fst (pollReplies w)) ! i - now w \<le> 600000)
     \<and> filter isPolling (trace (snd (generateVideoClip sg ph w)))
         = filter isPolling (trace w)
           @ concat (map (\<lambda>k. [SetTimeout (spec_backoff k), GetVideosOperation]) [0..<n])
     \<and> pollReplies (snd (generateVideoClip sg ph w)) = drop n (pollReplies w)"
  using generateVideoClip_deadline[OF assms, of sg]
  by (simp add: polling_def) blast

theorem generation_times_out_witness:
  "sendsStart slow_first_world None
   \<and> startReplies slow_first_world = [Inr op_running] \<and> \<not> op_done op_running
   \<and> pollReplies slow_first_world = (7000, Inr op_running) # replicate 49 (0, Inr op_running)
   \<and> checkTimes (now slow_first_world) 0 (map fst (pollReplies slow_first_world)) ! 40
       - now slow_first_world = 585750
   \<and> checkTimes (now slow_first_world) 0 (map fst (pollReplies slow_first_world)) ! 41
       - now slow_first_world = 600750
   \<and> fst (generateVideoClip sample_segment None slow_first_world)
       = Rejected (ErrorObj ''Video generation timed out after 10 minutes.'')
   \<and> now (snd (generateVideoClip sample_segment None slow_first_world)) = 600750
   \<and> pollReplies (snd (generateVideoClip sample_segment None slow_first_world))
       = replicate 9 (0, Inr op_running)
   \<and> length (filter isPolling
        (trace (snd (generateVideoClip sample_segment None slow_first_world)))) = 82"
  using generation_times_out[where w = slow_first_world and ph = None and ?op0.0 = op_running
          and later = "[]" and m = 41 and sg = sample_segment]
        slow_first_run slow_first_checks
  by (simp add: slow_first_world_def sample_world_def sendsStart_def op_running_def)

text \<open>
  The time-out is not raised whenever the ten minutes have passed with the job not done: the
  start and forty-one polls are answered at once with a job that is not done, and the
  forty-second poll is never answered. The call is still pending 608750 ms after the start,
  and no error is raised.
\<close>

theorem generation_hangs_counterexample:
  "sendsStart hung_world None
   \<and> startReplies hung_world = [Inr op_running] \<and> \<not> op_done op_running
   \<and> pollReplies hung_world = replicate 41 (0, Inr op_running)
   \<and> fst (generateVideoClip sample_segment None hung_world) = Pending
   \<and> 600000 < now (snd (generateVideoClip sample_segment None hung_world)) - now hung_world
   \<and> settled (trace (snd (generateVideoClip sample_segment None hung_world))) = []"
  using hung_run
  by (simp add: hung_world_def sample_world_def sendsStart_def op_running_def)



text \<open>
  C6: when the environment holds no credential, both operations fail before any request.
  \<^verbatim>\<open>transcribeAndSegmentAudio\<close> is rejected by the constructor of the client, its first
  statement, with the world as it was: no progress set, no file read, no request sent.
  \<^verbatim>\<open>generateVideoClip\<close> is rejected by its own test of the key, with no request to the network
  and no reply of the capability taken.
\<close>

theorem missing_credential_fails_fast:
  "API_KEY w = None \<Longrightarrow>
   transcribeAndSegmentAudio audio ctx chars w
     = (Rejected (ErrorObj ''An API Key must be set when running in a browser''), w)
   \<and> fst (generateVideoClip sg ph w)
     = Rejected (ErrorObj
         ''API Key is not available. Ensure the API_KEY environment variable is set.'')
   \<and> filter isNetwork (trace (snd (generateVideoClip sg ph w))) = filter isNetwork (trace w)
   \<and> startReplies (snd (generateVideoClip sg ph w)) = startReplies w"
  using missing_credential_transcribe[of w audio ctx chars] missing_credential_generate[of w sg ph]
  by (simp add: emit_def)

theorem missing_credential_fails_fast_witness:
  "API_KEY keyless_world = None
   \<and> transcribeAndSegmentAudio sample_audio '''' [hero] keyless_world
     = (Rejected (ErrorObj ''An API Key must be set when running in a browser''), keyless_world)
   \<and> fst (generateVideoClip sample_segment (Some sample_photo) keyless_world)
     = Rejected (ErrorObj
         ''API Key is not available. Ensure the API_KEY environment variable is set.'')
   \<and> filter isNetwork (trace (snd (generateVideoClip sample_segment (Some sample_photo) keyless_world)))
     = []
   \<and> trace (snd (transcribeAndSegmentAudio sample_audio '''' [hero] keyless_world)) = []"
  using missing_credential_fails_fast[of keyless_world sample_audio "''''" "[hero]"
          sample_segment "Some sample_photo"]
  by (simp add: keyless_world_def sample_world_def)

text \<open>
  C7: \<^verbatim>\<open>startOver\<close>, from any state and so from \<open>S_error\<close> and \<open>S_complete\<close>, gives the idle
  state with no clip, exactly one character with empty name, description and photo, no audio
  file or URL, an empty context and an empty error message.
\<close>

theorem startOver_resets:
  "status (fst (startOver s w)) = S_idle
   \<and> generatedClips (fst (startOver s w)) = []
   \<and> characters (fst (startOver s w)) =
        [\<lparr>char_id = ''char_'' @ showInt (now w), name = '''', description = '''', photoUrl = '''',
          photoFile = None\<rparr>]
   \<and> audioFile (fst (startOver s w)) = None
   \<and> audioUrl (fst (startOver s w)) = None
   \<and> storyContext (fst (startOver s w)) = ''''
   \<and> errorMsg (fst (startOver s w)) = ''''"
  by (simp add: startOver_def addCharacter_def Let_def)

text \<open>
  C8, as the code has it: \<^verbatim>\<open>startOver\<close> empties the clip list and releases nothing; the blob
  URLs that were live before the reset are live after it.
\<close>

theorem startOver_keeps_blob_urls:
  "generatedClips (fst (startOver s w)) = [] \<and> objectUrls (snd (startOver s w)) = objectUrls w"
  by (simp add: startOver_def addCharacter_def Let_def)

text \<open>
  A run that generates one clip, then the reset: the clip's blob URL is still live.
\<close>

theorem startOver_releases_counterexample:
  "map blobUrl (generatedClips (fst (snd (generateStory story_app one_clip_world)))) = [''blob:0'']
   \<and> ''blob:0'' \<in> set (objectUrls (snd (startOver (fst (snd (generateStory story_app one_clip_world)))
                                                  (snd (snd (generateStory story_app one_clip_world))))))"
  using one_clip_run by (simp add: startOver_def Let_def)

text \<open>
  C9: with exactly three clips and both players bound, \<^verbatim>\<open>playStory\<close> sets the index to 0 and
  the video source to clip 0 and starts audio and video; two calls of \<^verbatim>\<open>handleVideoEnded\<close> move
  the index to 1 and then 2, each setting the video source to the clip at the new index and
  playing the video, the audio element being given no command; the third call pauses the audio
  and gives the video element no command, so that no fourth source is set.
\<close>

theorem playback_three_clips:
  assumes clips: "generatedClips s = [c0, c1, c2]"
    and video: "videoPlayer s = Some v"
    and audio: "audioPlayer s = Some a"
  defines "s0 \<equiv> playStory s"
  defines "s1 \<equiv> snd (handleVideoEnded s0)"
  defines "s2 \<equiv> snd (handleVideoEnded s1)"
  defines "s3 \<equiv> snd (handleVideoEnded s2)"
  shows "currentClipIndex s0 = 0
         \<and> videoPlayer s0 = Some (v @ [SetSrc (blobUrl c0), Play])
         \<and> audioPlayer s0 = Some (a @ [SetCurrentTime 0, Play])
       \<and> fst (handleVideoEnded s0) = None \<and> currentClipIndex s1 = 1
         \<and> videoPlayer s1 = Some (v @ [SetSrc (blobUrl c0), Play, SetSrc (blobUrl c1), Play])
         \<and> audioPlayer s1 = audioPlayer s0
       \<and> fst (handleVideoEnded s1) = None \<and> currentClipIndex s2 = 2
         \<and> videoPlayer s2 = Some (v @ [SetSrc (blobUrl c0), Play, SetSrc (blobUrl c1), Play,
                                        SetSrc (blobUrl c2), Play])
         \<and> audioPlayer s2 = audioPlayer s0
       \<and> fst (handleVideoEnded s2) = None \<and> currentClipIndex s3 = 2
         \<and> videoPlayer s3 = videoPlayer s2
         \<and> audioPlayer s3 = Some (a @ [SetCurrentTime 0, Play, Pause])"
proof -
  have p0: "s0 = s\<lparr>currentClipIndex := 0, videoPlayer := Some (v @ [SetSrc (blobUrl c0), Play]),
                    audioPlayer := Some (a @ [SetCurrentTime 0, Play])\<rparr>"
    using clips video audio
    by (simp add: s0_def playStory_def currentClipUrl_def at_index_def Let_def)
  have p1: "handleVideoEnded s0 = (None, s0\<lparr>currentClipIndex := 1,
              videoPlayer := Some (v @ [SetSrc (blobUrl c0), Play, SetSrc (blobUrl c1), Play])\<rparr>)"
    using clips by (simp add: p0 handleVideoEnded_def currentClipUrl_def at_index_def Let_def)
  then have q1: "s1 = s0\<lparr>currentClipIndex := 1,
              videoPlayer := Some (v @ [SetSrc (blobUrl c0), Play, SetSrc (blobUrl c1), Play])\<rparr>"
    by (simp add: s1_def)
  have p2: "handleVideoEnded s1 = (None, s1\<lparr>currentClipIndex := 2,
              videoPlayer := Some (v @ [SetSrc (blobUrl c0), Play, SetSrc (blobUrl c1), Play,
                                        SetSrc (blobUrl c2), Play])\<rparr>)"
    using clips by (simp add: q1 p0 handleVideoEnded_def currentClipUrl_def at_index_def Let_def)
  then have q2: "s2 = s1\<lparr>currentClipIndex := 2,
              videoPlayer := Some (v @ [SetSrc (blobUrl c0), Play, SetSrc (blobUrl c1), Play,
                                        SetSrc (blobUrl c2), Play])\<rparr>"
    by (simp add: s2_def)
  have p3: "handleVideoEnded s2 = (None, s2\<lparr>audioPlayer := Some (a @ [SetCurrentTime 0, Play, Pause])\<rparr>)"
    using clips by (simp add: q2 q1 p0 handleVideoEnded_def Let_def)
  then have q3: "s3 = s2\<lparr>audioPlayer := Some (a @ [SetCurrentTime 0, Play, Pause])\<rparr>"
    by (simp add: s3_def)
  have r0: "currentClipIndex s0 = 0" "videoPlayer s0 = Some (v @ [SetSrc (blobUrl c0), Play])"
    "audioPlayer s0 = Some (a @ [SetCurrentTime 0, Play])"
    by (simp_all add: p0)
  have r1: "fst (handleVideoEnded s0) = None" "currentClipIndex s1 = 1"
    "videoPlayer s1 = Some (v @ [SetSrc (blobUrl c0), Play, SetSrc (blobUrl c1), Play])"
    "audioPlayer s1 = audioPlayer s0"
    by (simp_all add: p1 q1)
  have r2: "fst (handleVideoEnded s1) = None" "currentClipIndex s2 = 2"
    "videoPlayer s2 = Some (v @ [SetSrc (blobUrl c0), Play, SetSrc (blobUrl c1), Play,
                                 SetSrc (blobUrl c2), Play])"
    "audioPlayer s2 = audioPlayer s0"
    by (simp_all add: p2 q2 r1)
  have r3: "fst (handleVideoEnded s2) = None" "currentClipIndex s3 = 2"
    "videoPlayer s3 = videoPlayer s2"
    "audioPlayer s3 = Some (a @ [SetCurrentTime 0, Play, Pause])"
    by (simp_all add: p3 q3 r2)
  from r0 r1 r2 r3 show ?thesis by blast
qed

theorem playback_three_clips_witness:
  "generatedClips sample_app = [sample_clip ''blob:0'', sample_clip ''blob:1'', sample_clip ''blob:2'']
   \<and> videoPlayer sample_app = Some [] \<and> audioPlayer sample_app = Some []
   \<and> currentClipIndex (snd (handleVideoEnded (snd (handleVideoEnded (playStory sample_app))))) = 2
   \<and> videoPlayer (snd (handleVideoEnded (snd (handleVideoEnded (snd (handleVideoEnded (playStory sample_app)))))))
       = Some [SetSrc ''blob:0'', Play, SetSrc ''blob:1'', Play, SetSrc ''blob:2'', Play]
   \<and> audioPlayer (snd (handleVideoEnded (snd (handleVideoEnded (snd (handleVideoEnded (playStory sample_app)))))))
       = Some [SetCurrentTime 0, Play, Pause]"
proof -
  have c: "generatedClips sample_app = [sample_clip ''blob:0'', sample_clip ''blob:1'', sample_clip ''blob:2'']"
    and v: "videoPlayer sample_app = Some []" and a: "audioPlayer sample_app = Some []"
    by (simp_all add: sample_app_def)
  show ?thesis
    using playback_three_clips[OF c v a] c v a
    by (simp add: sample_clip_def)
qed

text \<open>
  C10: the progress percentage is a finite number for every progress value: 0 when the total
  is 0, and \<open>current / total * 100\<close> otherwise; the division is never made with a zero divisor.
  A story of no segments ends with total 0 and shows 0 per cent.
\<close>

theorem progressPercentage_total:
  "(total (progress s) = 0 \<longrightarrow> progressPercentage s = Some 0)
   \<and> (total (progress s) \<noteq> 0 \<longrightarrow>
        progressPercentage s = Some (current (progress s) / total (progress s) * 100))"
  by (simp add: progressPercentage_def js_divide_def Let_def)

theorem progressPercentage_total_witness:
  "total (progress (fst (snd (generateStory story_app empty_story_world)))) = 0
   \<and> progressPercentage (fst (snd (generateStory story_app empty_story_world))) = Some 0
   \<and> total (progress (sample_app\<lparr>progress := \<lparr>stage = ''Generating clips'', total = 4, current = 1, message = ''''\<rparr>\<rparr>)) \<noteq> 0
   \<and> progressPercentage (sample_app\<lparr>progress := \<lparr>stage = ''Generating clips'', total = 4, current = 1, message = ''''\<rparr>\<rparr>) = Some 25"
  using progressPercentage_total[of "fst (snd (generateStory story_app empty_story_world))"]
        progressPercentage_total[of "sample_app\<lparr>progress := \<lparr>stage = ''Generating clips'', total = 4, current = 1, message = ''''\<rparr>\<rparr>"]
        empty_story_run
  by simp

end
